theory Spec2Isabelle
  imports Main "HOL-Library.Sublist"
begin

section \<open>Strings\<close>

text \<open>
  A JavaScript string is a sequence of UTF-16 code units. A code unit is modelled as a
  natural number and a string as a list of them; \<open>js\<close> turns an ASCII literal into such
  a string. None of the patterns of the sources carries the \<open>u\<close> flag, so all matching
  is by code unit.
\<close>

type_synonym jsstring = "nat list"

definition js :: "string \<Rightarrow> jsstring" where
  "js s = map of_char s"

text \<open>
  \<open>String.prototype.trim\<close> removes, at both ends, the code units that are white space
  or line terminators of ECMAScript: TAB, LF, VT, FF, CR, SP, NBSP, the space separators
  of Unicode, LS, PS and the byte order mark.
\<close>

definition isWhiteSpace :: "nat \<Rightarrow> bool" where
  "isWhiteSpace c \<longleftrightarrow>
     c = 0x09 \<or> c = 0x0A \<or> c = 0x0B \<or> c = 0x0C \<or> c = 0x0D \<or> c = 0x20 \<or> c = 0xA0
     \<or> c = 0x1680 \<or> (0x2000 \<le> c \<and> c \<le> 0x200A) \<or> c = 0x2028 \<or> c = 0x2029
     \<or> c = 0x202F \<or> c = 0x205F \<or> c = 0x3000 \<or> c = 0xFEFF"

definition isLineTerminator :: "nat \<Rightarrow> bool" where
  "isLineTerminator c \<longleftrightarrow> c = 0x0A \<or> c = 0x0D \<or> c = 0x2028 \<or> c = 0x2029"

definition trim :: "jsstring \<Rightarrow> jsstring" where
  "trim s = rev (dropWhile isWhiteSpace (rev (dropWhile isWhiteSpace s)))"

text \<open>A string is truthy when it is not empty; an absent value is falsy.\<close>

definition truthy :: "jsstring option \<Rightarrow> bool" where
  "truthy v = (case v of None \<Rightarrow> False | Some s \<Rightarrow> s \<noteq> [])"

text \<open>
  \<open>String.prototype.toUpperCase\<close> on its ASCII fragment: the letters a to z are mapped
  to A to Z. Code units outside ASCII are left as they are here, where JavaScript applies
  the Unicode case mapping.
\<close>

definition toUpperCase :: "jsstring \<Rightarrow> jsstring" where
  "toUpperCase s = map (\<lambda>c. if 0x61 \<le> c \<and> c \<le> 0x7A then c - 0x20 else c) s"

text \<open>
  A number in a template literal is printed in decimal. The model covers integers (the
  line numbers and lengths the exporter prints); JavaScript prints integers of magnitude
  \<open>10\<^sup>2\<^sup>1\<close> and above in exponent notation, which is outside the model.
\<close>

fun decimal :: "nat \<Rightarrow> jsstring" where
  "decimal n = (if n < 10 then [0x30 + n] else decimal (n div 10) @ [0x30 + n mod 10])"

declare decimal.simps [simp del]

definition numberToString :: "int \<Rightarrow> jsstring" where
  "numberToString i = (if i < 0 then js ''-'' @ decimal (nat (- i)) else decimal (nat i))"

text \<open>\<open>Array.prototype.join\<close> on an array of strings.\<close>

fun join :: "jsstring \<Rightarrow> jsstring list \<Rightarrow> jsstring" where
  "join sep [] = []"
| "join sep [x] = x"
| "join sep (x # y # ys) = x @ sep @ join sep (y # ys)"

text \<open>The lines of a text: its pieces between line feeds.\<close>

fun split_lines :: "jsstring \<Rightarrow> jsstring list" where
  "split_lines [] = [[]]"
| "split_lines (c # cs) =
     (if c = 0x0A then [] # split_lines cs
      else (case split_lines cs of [] \<Rightarrow> [[c]] | l # ls \<Rightarrow> (c # l) # ls))"

section \<open>Regular expressions\<close>

text \<open>
  The fragment of the regular expressions the sources use: a literal string, an optional
  group, a sequence, and \<open>+\<close> and \<open>*\<close> on a single character class. A class is one
  code unit, every code unit but one (\<open>[^/]\<close>), or the dot, which matches every code unit
  but a line terminator.
\<close>

datatype cls = Lit nat | NotLit nat | Dot

fun cls_matches :: "cls \<Rightarrow> nat \<Rightarrow> bool" where
  "cls_matches (Lit a) c = (c = a)"
| "cls_matches (NotLit a) c = (c \<noteq> a)"
| "cls_matches Dot c = (\<not> isLineTerminator c)"

datatype rx = Chars jsstring | Plus cls | Star cls | Opt rx | Seq rx rx

text \<open>
  A backtracking matcher: \<open>run r s\<close> lists what is left of \<open>s\<close> after each way of
  matching \<open>r\<close> at its start, in the order a greedy matcher tries them (the longest
  repetition first, the optional group taken before it is skipped).
\<close>

fun many :: "cls \<Rightarrow> jsstring \<Rightarrow> jsstring list" where
  "many k [] = [[]]"
| "many k (c # cs) = (if cls_matches k c then many k cs @ [c # cs] else [c # cs])"

fun run :: "rx \<Rightarrow> jsstring \<Rightarrow> jsstring list" where
  "run (Chars w) s = (if take (length w) s = w then [drop (length w) s] else [])"
| "run (Star k) s = many k s"
| "run (Plus k) s =
     (case s of [] \<Rightarrow> [] | c # cs \<Rightarrow> if cls_matches k c then many k cs else [])"
| "run (Opt r) s = run r s @ [s]"
| "run (Seq r1 r2) s = concat (map (run r2) (run r1 s))"

text \<open>\<open>test\<close> for a pattern written between \<open>^\<close> and \<open>$\<close>: the whole input is matched.\<close>

definition test :: "rx \<Rightarrow> jsstring \<Rightarrow> bool" where
  "test r s \<longleftrightarrow> [] \<in> set (run r s)"

definition slash :: nat where
  "slash = 0x2F"

text \<open>
  \<^verbatim>\<open>/^https?:\/\/github\.com\/[^/]+\/[^/]+(\/tree\/[^/]+(\/.*)?)?$/\<close>, declared in the
  page and in the URL input component alike.
\<close>

definition GITHUB_URL_PATTERN :: rx where
  "GITHUB_URL_PATTERN =
     Seq (Chars (js ''http'')) (Seq (Opt (Chars (js ''s''))) (Seq (Chars (js ''://github.com/''))
     (Seq (Plus (NotLit slash)) (Seq (Chars (js ''/'')) (Seq (Plus (NotLit slash))
     (Opt (Seq (Chars (js ''/tree/'')) (Seq (Plus (NotLit slash))
        (Opt (Seq (Chars (js ''/'')) (Star Dot)))))))))))"

text \<open>The validity shown under the URL input: nothing for a blank value.\<close>

definition isValid :: "jsstring \<Rightarrow> bool option" where
  "isValid v = (if trim v = [] then None else Some (test GITHUB_URL_PATTERN (trim v)))"

subsection \<open>The grammar of a repository reference\<close>

text \<open>The words a regular expression denotes.\<close>

fun lang :: "rx \<Rightarrow> jsstring set" where
  "lang (Chars w) = {w}"
| "lang (Plus k) = {u. u \<noteq> [] \<and> list_all (cls_matches k) u}"
| "lang (Star k) = {u. list_all (cls_matches k) u}"
| "lang (Opt r) = insert [] (lang r)"
| "lang (Seq r1 r2) = {u @ v | u v. u \<in> lang r1 \<and> v \<in> lang r2}"

definition subpath_rx :: rx where
  "subpath_rx = Opt (Seq (Chars (js ''/'')) (Star Dot))"

definition tree_rx :: rx where
  "tree_rx = Opt (Seq (Chars (js ''/tree/'')) (Seq (Plus (NotLit slash)) subpath_rx))"

text \<open>
  The grammar as the specification words it:
  \<open>scheme://github.com/<owner>/<repo>[/tree/<ref>[/<subpath>]]\<close>, where the scheme is
  http or https, and owner, repo and ref are not empty and hold no slash. The subpath is
  what the dot of the pattern matches: any code units but line terminators.
\<close>

definition segment :: "jsstring \<Rightarrow> bool" where
  "segment w \<longleftrightarrow> w \<noteq> [] \<and> slash \<notin> set w"

definition remote_reference_grammar :: "jsstring \<Rightarrow> bool" where
  "remote_reference_grammar t \<longleftrightarrow>
     (\<exists>scheme owner repo suffix.
        t = scheme @ js ''://github.com/'' @ owner @ js ''/'' @ repo @ suffix
        \<and> (scheme = js ''http'' \<or> scheme = js ''https'')
        \<and> segment owner \<and> segment repo
        \<and> (suffix = []
           \<or> (\<exists>ref rest. suffix = js ''/tree/'' @ ref @ rest \<and> segment ref
                \<and> (rest = []
                   \<or> (\<exists>subpath. rest = js ''/'' @ subpath
                        \<and> list_all (\<lambda>c. \<not> isLineTerminator c) subpath)))))"

section \<open>The upload store\<close>

datatype UploadMode = Files | Github

text \<open>A selected file: its relative path and its content.\<close>

type_synonym File = "jsstring \<times> nat list"

record UploadState =
  mode :: UploadMode
  files :: "File list option"
  packageName :: "jsstring option"
  githubUrl :: jsstring
  fromGitHub :: bool

text \<open>The state the store is created with.\<close>

definition useUploadStore :: UploadState where
  "useUploadStore =
     \<lparr>mode = Files, files = None, packageName = None, githubUrl = [], fromGitHub = False\<rparr>"

text \<open>
  Every action calls \<open>set\<close> with a partial state, which the store merges into the current
  one: the fields that are not named keep their value.
\<close>

definition setMode :: "UploadMode \<Rightarrow> UploadState \<Rightarrow> UploadState" where
  "setMode m s = s\<lparr>mode := m\<rparr>"

definition setUpload :: "File list option \<Rightarrow> jsstring option \<Rightarrow> UploadState \<Rightarrow> UploadState" where
  "setUpload fs p s = s\<lparr>files := fs, packageName := p\<rparr>"

definition setGitHubUrl :: "jsstring \<Rightarrow> UploadState \<Rightarrow> UploadState" where
  "setGitHubUrl u s = s\<lparr>githubUrl := u\<rparr>"

definition setFromGitHub :: "bool \<Rightarrow> UploadState \<Rightarrow> UploadState" where
  "setFromGitHub b s = s\<lparr>fromGitHub := b\<rparr>"

definition clearUpload :: "UploadState \<Rightarrow> UploadState" where
  "clearUpload s = s\<lparr>files := None, packageName := None, githubUrl := [], fromGitHub := False\<rparr>"

section \<open>The job history\<close>

record RecentJob =
  job_id :: jsstring
  label :: jsstring
  created_at_ms :: int
  source :: UploadMode

text \<open>
  Modelled from the spec: the module \<open>lib/recent-jobs\<close>, of which the page imports
  \<open>addRecentJob\<close> and \<open>removeRecentJob\<close>, is not among the sources. By the
  specification, \<open>add\<close> inserts the record at the front, replacing a record of the same
  job identifier, and truncates the list to the cap; the specification leaves the value
  of the cap open, so it is a parameter. The function is given the persisted list it
  reads.
\<close>

definition addRecentJob :: "nat \<Rightarrow> RecentJob \<Rightarrow> RecentJob list \<Rightarrow> RecentJob list" where
  "addRecentJob cap r h = take cap (r # filter (\<lambda>x. job_id x \<noteq> job_id r) h)"

text \<open>
  Modelled from the spec: \<open>remove\<close> removes the record of the given job identifier if
  there is one, and is a no-op otherwise.
\<close>

definition removeRecentJob :: "jsstring \<Rightarrow> RecentJob list \<Rightarrow> RecentJob list" where
  "removeRecentJob j h = filter (\<lambda>x. job_id x \<noteq> j) h"

text \<open>The page clears the history with \<open>setRecentJobs([])\<close>.\<close>

definition clearRecentJobs :: "RecentJob list \<Rightarrow> RecentJob list" where
  "clearRecentJobs h = []"

text \<open>The histories that the three operations build from the empty one.\<close>

inductive history :: "nat \<Rightarrow> RecentJob list \<Rightarrow> bool" for cap :: nat where
  empty: "history cap []"
| add: "history cap h \<Longrightarrow> history cap (addRecentJob cap r h)"
| remove: "history cap h \<Longrightarrow> history cap (removeRecentJob j h)"
| clear: "history cap h \<Longrightarrow> history cap (clearRecentJobs h)"

section \<open>The page\<close>

text \<open>
  What a rejected call throws: an \<open>Error\<close> with its message, or any other value.
\<close>

datatype thrown = Error jsstring | NotAnError

type_synonym ZipFile = "nat list"

text \<open>The calls the page makes to the backend, with their arguments.\<close>

datatype request =
  StartJob ZipFile jsstring jsstring
| StartJobFromGitHub jsstring jsstring jsstring

text \<open>
  The collaborators of the page, which are not among the sources: the authorization hook,
  \<open>inferPackageName\<close>, \<open>createZipFromFiles\<close>, the two submission calls (each resolves
  to the \<open>job_id\<close> of its response or rejects), the clock, and the cap of the history.
\<close>

record Collaborators =
  isAuthorized :: bool
  isAuthLoading :: bool
  inferPackageName :: "File list \<Rightarrow> jsstring option"
  createZipFromFiles :: "File list \<Rightarrow> jsstring \<Rightarrow> thrown + ZipFile"
  startJob :: "ZipFile \<Rightarrow> jsstring \<Rightarrow> jsstring \<Rightarrow> thrown + jsstring"
  startJobFromGitHub :: "jsstring \<Rightarrow> jsstring \<Rightarrow> jsstring \<Rightarrow> thrown + jsstring"
  now :: int
  history_cap :: nat

text \<open>
  The state of the page: the upload store, the component's own state, the persisted
  history, and a record of what has been sent to the backend and to the router.
\<close>

record PageState =
  upload :: UploadState
  openaiKey :: jsstring
  model :: jsstring
  isSubmitting :: bool
  submitError :: "jsstring option"
  recentJobs :: "RecentJob list"
  requests :: "request list"
  pushed :: "jsstring list"

definition fileCount :: "UploadState \<Rightarrow> nat" where
  "fileCount u = (case files u of None \<Rightarrow> 0 | Some fs \<Rightarrow> length fs)"

text \<open>
  The label of the selection. In the repository mode it is the first group of
  \<^verbatim>\<open>/github\.com\/[^/]+\/([^/]+)/\<close> at the leftmost place of the URL where the pattern
  matches, without a final \<open>.git\<close>.
\<close>

definition REPO_PREFIX :: rx where
  "REPO_PREFIX = Seq (Chars (js ''github.com/'')) (Seq (Plus (NotLit slash)) (Chars (js ''/'')))"

definition repo_group_at :: "jsstring \<Rightarrow> jsstring option" where
  "repo_group_at t =
     (case filter (\<lambda>r. run (Plus (NotLit slash)) r \<noteq> []) (run REPO_PREFIX t) of
        [] \<Rightarrow> None
      | r # _ \<Rightarrow> Some (takeWhile (\<lambda>c. c \<noteq> slash) r))"

fun match_repo :: "jsstring \<Rightarrow> jsstring option" where
  "match_repo [] = None"
| "match_repo (c # cs) =
     (case repo_group_at (c # cs) of Some g \<Rightarrow> Some g | None \<Rightarrow> match_repo cs)"

definition strip_git :: "jsstring \<Rightarrow> jsstring" where
  "strip_git g = (if suffix (js ''.git'') g then take (length g - 4) g else g)"

definition selectedLabel :: "Collaborators \<Rightarrow> UploadState \<Rightarrow> jsstring option" where
  "selectedLabel env u =
     (if mode u = Github \<and> trim (githubUrl u) \<noteq> [] then
        (case match_repo (githubUrl u) of
           Some g \<Rightarrow> Some (strip_git g)
         | None \<Rightarrow> Some (js ''github-repo''))
      else if truthy (packageName u) then packageName u
      else (case files u of Some fs \<Rightarrow> inferPackageName env fs | None \<Rightarrow> None))"

text \<open>\<open>selectedLabel ?? "files"\<close>\<close>

definition job_name :: "Collaborators \<Rightarrow> UploadState \<Rightarrow> jsstring" where
  "job_name env u = (case selectedLabel env u of Some l \<Rightarrow> l | None \<Rightarrow> js ''files'')"

definition isValidGitHubUrl :: "jsstring \<Rightarrow> bool" where
  "isValidGitHubUrl u = test GITHUB_URL_PATTERN (trim u)"

definition canSubmit :: "Collaborators \<Rightarrow> PageState \<Rightarrow> bool" where
  "canSubmit env st =
     (if isSubmitting st \<or> isAuthLoading env \<or> \<not> isAuthorized env then False
      else if mode (upload st) = Files then files (upload st) \<noteq> None \<and> fileCount (upload st) > 0
      else isValidGitHubUrl (githubUrl (upload st)))"

text \<open>The \<open>catch\<close> and \<open>finally\<close> blocks of \<open>handleSubmit\<close>.\<close>

definition error_message :: "thrown \<Rightarrow> jsstring" where
  "error_message e = (case e of Error m \<Rightarrow> m | NotAnError \<Rightarrow> js ''Upload failed'')"

definition catch_block :: "thrown \<Rightarrow> PageState \<Rightarrow> PageState" where
  "catch_block e st = st\<lparr>submitError := Some (error_message e)\<rparr>"

definition finally_block :: "PageState \<Rightarrow> PageState" where
  "finally_block st = st\<lparr>isSubmitting := False\<rparr>"


text \<open>
  The end of the \<open>try\<close> block, after the submission call has resolved: the job is
  added to the history, the history is stored, and the router is sent to the results.
\<close>

definition persist_and_route :: "Collaborators \<Rightarrow> jsstring \<Rightarrow> UploadMode \<Rightarrow> jsstring \<Rightarrow> PageState \<Rightarrow> PageState" where
  "persist_and_route env name m jid st =
     (let next = addRecentJob (history_cap env)
                   \<lparr>job_id = jid, label = name, created_at_ms = now env, source = m\<rparr>
                   (recentJobs st);
          st1 = st\<lparr>recentJobs := next\<rparr>
      in st1\<lparr>pushed := pushed st1 @ [js ''/results?job_id='' @ jid]\<rparr>)"

definition handleSubmit :: "Collaborators \<Rightarrow> PageState \<Rightarrow> PageState" where
  "handleSubmit env st =
     (let u = upload st in
      if \<not> isAuthorized env then
        st\<lparr>submitError := Some (js ''Authorize with GitHub to start analysis.'')\<rparr>
      else if mode u = Files \<and> (files u = None \<or> fileCount u = 0) then st
      else if mode u = Github \<and> \<not> isValidGitHubUrl (githubUrl u) then st
      else
        let trimmedKey = trim (openaiKey st);
            st1 = st\<lparr>isSubmitting := True, submitError := None\<rparr>;
            name = job_name env u
        in finally_block
          (case mode u of
             Github \<Rightarrow>
               (let url = trim (githubUrl u);
                    st2 = st1\<lparr>requests := requests st1 @ [StartJobFromGitHub url (model st) trimmedKey]\<rparr>
                in case startJobFromGitHub env url (model st) trimmedKey of
                     Inl e \<Rightarrow> catch_block e st2
                   | Inr jid \<Rightarrow>
                       persist_and_route env name (mode u) jid
                         (st2\<lparr>upload := setFromGitHub True (upload st2)\<rparr>))
           | Files \<Rightarrow>
               (case createZipFromFiles env (case files u of Some fs \<Rightarrow> fs | None \<Rightarrow> []) name of
                  Inl e \<Rightarrow> catch_block e st1
                | Inr zipFile \<Rightarrow>
                    (let st2 = st1\<lparr>requests := requests st1 @ [StartJob zipFile (model st) trimmedKey]\<rparr>
                     in case startJob env zipFile (model st) trimmedKey of
                          Inl e \<Rightarrow> catch_block e st2
                        | Inr jid \<Rightarrow>
                            persist_and_route env name (mode u) jid
                              (st2\<lparr>upload := setFromGitHub False (upload st2)\<rparr>)))))"

text \<open>
  The draft is eligible for submission: files are selected in the files mode, the URL is
  valid in the repository mode.
\<close>

definition eligible :: "UploadState \<Rightarrow> bool" where
  "eligible u =
     (if mode u = Files then files u \<noteq> None \<and> fileCount u > 0
      else isValidGitHubUrl (githubUrl u))"

text \<open>
  What the calls awaited by a submission of the current state come to: the job identifier
  the backend answers with, or what the archive packager or the backend throws.
\<close>

definition awaited :: "Collaborators \<Rightarrow> PageState \<Rightarrow> thrown + jsstring" where
  "awaited env st =
     (let u = upload st in
      case mode u of
        Github \<Rightarrow> startJobFromGitHub env (trim (githubUrl u)) (model st) (trim (openaiKey st))
      | Files \<Rightarrow>
          (case createZipFromFiles env (case files u of Some fs \<Rightarrow> fs | None \<Rightarrow> []) (job_name env u) of
             Inl e \<Rightarrow> Inl e
           | Inr zipFile \<Rightarrow> startJob env zipFile (model st) (trim (openaiKey st))))"

section \<open>The report exporter\<close>

text \<open>
  The type \<open>Vulnerability\<close> is imported from a module that is not among the sources; its
  fields are those the exporter reads. The optional texts are absent or present; the
  description is the sequence of locations of the specification's data model.
\<close>

record Location =
  file' :: jsstring
  line_start :: int
  line_end :: int
  desc :: jsstring

record Vulnerability =
  id' :: jsstring
  title :: jsstring
  severity :: jsstring
  summary :: "jsstring option"
  impact :: "jsstring option"
  description :: "Location list"
  proof_of_concept :: "jsstring option"
  remediation :: "jsstring option"

text \<open>The body of the loop over the locations: the four lines it pushes.\<close>

definition location_lines :: "Location \<Rightarrow> jsstring list" where
  "location_lines loc =
     [[],
      js ''**File:** `'' @ file' loc @ js ''` (lines '' @ numberToString (line_start loc)
        @ js ''-'' @ numberToString (line_end loc) @ js '')'',
      [],
      desc loc]"

definition push_location :: "jsstring list \<Rightarrow> Location \<Rightarrow> jsstring list" where
  "push_location lines loc = lines @ location_lines loc"

text \<open>An optional section: pushed when its text is truthy.\<close>

definition push_section :: "string \<Rightarrow> jsstring option \<Rightarrow> jsstring list \<Rightarrow> jsstring list" where
  "push_section heading body lines =
     (case body of
        Some t \<Rightarrow> if t \<noteq> [] then lines @ [js heading, t, []] else lines
      | None \<Rightarrow> lines)"

text \<open>The array \<open>lines\<close> of \<open>vulnerabilityToMarkdown\<close> when it is joined.\<close>

definition vulnerability_lines :: "Vulnerability \<Rightarrow> jsstring list" where
  "vulnerability_lines vuln =
     (let lines = [];
          lines = lines @ [js ''## '' @ id' vuln @ js '': '' @ title vuln];
          lines = lines @ [[]];
          lines = lines @ [js ''**Severity:** '' @ toUpperCase (severity vuln)];
          lines = lines @ [[]];
          lines = push_section ''### Summary'' (summary vuln) lines;
          lines = push_section ''### Impact'' (impact vuln) lines;
          lines = (if length (description vuln) > 0
                   then foldl push_location (lines @ [js ''### Description'']) (description vuln) @ [[]]
                   else lines);
          lines = push_section ''### Proof of Concept'' (proof_of_concept vuln) lines;
          lines = push_section ''### Remediation'' (remediation vuln) lines
      in lines)"

definition vulnerabilityToMarkdown :: "Vulnerability \<Rightarrow> jsstring" where
  "vulnerabilityToMarkdown vuln = join ([0x0A]) (vulnerability_lines vuln)"

definition generateVulnerabilityMarkdown :: "Vulnerability \<Rightarrow> jsstring" where
  "generateVulnerabilityMarkdown vuln =
     js ''# Vulnerability Report'' @ [0x0A, 0x0A] @ vulnerabilityToMarkdown vuln"

text \<open>
  The count by severity: an object whose keys are the severities, listed by
  \<open>Object.entries\<close> in the order in which they were first set. (This is the order for
  keys that are not canonical array indices, and the count for keys that are not
  properties of \<open>Object.prototype\<close>; the severities of the data model are such keys.)
\<close>

fun count_severity :: "(jsstring \<times> nat) list \<Rightarrow> jsstring \<Rightarrow> (jsstring \<times> nat) list" where
  "count_severity [] k = [(k, 1)]"
| "count_severity ((k', n) # acc) k =
     (if k' = k then (k', n + 1) # acc else (k', n) # count_severity acc k)"

definition bySeverity :: "Vulnerability list \<Rightarrow> (jsstring \<times> nat) list" where
  "bySeverity vulnerabilities = foldl (\<lambda>acc v. count_severity acc (severity v)) [] vulnerabilities"

text \<open>The body of the loop over the vulnerabilities: the three elements it pushes.\<close>

definition push_vulnerability :: "jsstring list \<Rightarrow> Vulnerability \<Rightarrow> jsstring list" where
  "push_vulnerability lines vuln = lines @ [vulnerabilityToMarkdown vuln, js ''---'', []]"

text \<open>The array \<open>lines\<close> of \<open>generateAllVulnerabilitiesMarkdown\<close> before the loop.\<close>

definition report_head :: "Vulnerability list \<Rightarrow> jsstring option \<Rightarrow> jsstring list" where
  "report_head vulnerabilities jobId =
     (let lines = [];
          lines = lines @ [js ''# Security Audit Report''];
          lines = lines @ [[]];
          lines = (case jobId of
                     Some j \<Rightarrow> if j \<noteq> [] then lines @ [js ''**Job ID:** '' @ j, []] else lines
                   | None \<Rightarrow> lines);
          lines = lines @ [js ''**Total Vulnerabilities:** '' @ decimal (length vulnerabilities)];
          lines = lines @ [[]];
          lines = lines @ [js ''### Summary by Severity''];
          lines = lines @ [[]];
          lines = foldl (\<lambda>ls (sev, count). ls @ [js ''- **'' @ toUpperCase sev @ js '':** '' @ decimal count])
                    lines (bySeverity vulnerabilities);
          lines = lines @ [[]];
          lines = lines @ [js ''---''];
          lines = lines @ [[]]
      in lines)"

definition report_lines :: "Vulnerability list \<Rightarrow> jsstring option \<Rightarrow> jsstring list" where
  "report_lines vulnerabilities jobId =
     foldl push_vulnerability (report_head vulnerabilities jobId) vulnerabilities"

definition generateAllVulnerabilitiesMarkdown :: "Vulnerability list \<Rightarrow> jsstring option \<Rightarrow> jsstring" where
  "generateAllVulnerabilitiesMarkdown vulnerabilities jobId =
     join ([0x0A]) (report_lines vulnerabilities jobId)"

text \<open>
  The two downloads: each calls \<open>downloadMarkdown\<close> with a content and a file name, which
  the model returns.
\<close>

definition isAlphaNumeric :: "nat \<Rightarrow> bool" where
  "isAlphaNumeric c \<longleftrightarrow>
     (0x61 \<le> c \<and> c \<le> 0x7A) \<or> (0x41 \<le> c \<and> c \<le> 0x5A) \<or> (0x30 \<le> c \<and> c \<le> 0x39)"

definition hyphen :: nat where
  "hyphen = 0x2D"

text \<open>\<^verbatim>\<open>.replace(/[^a-zA-Z0-9]/g, "-")\<close>\<close>

definition sanitize :: "jsstring \<Rightarrow> jsstring" where
  "sanitize s = map (\<lambda>c. if isAlphaNumeric c then c else hyphen) s"

definition downloadVulnerability :: "Vulnerability \<Rightarrow> jsstring \<times> jsstring" where
  "downloadVulnerability vuln =
     (let content = generateVulnerabilityMarkdown vuln;
          filename = id' vuln @ js ''-'' @ sanitize (take 30 (title vuln)) @ js ''.md''
      in (content, filename))"

definition downloadAllVulnerabilities :: "Vulnerability list \<Rightarrow> jsstring option \<Rightarrow> jsstring \<times> jsstring" where
  "downloadAllVulnerabilities vulnerabilities jobId =
     (let content = generateAllVulnerabilitiesMarkdown vulnerabilities jobId;
          filename = (case jobId of
                        Some j \<Rightarrow> if j \<noteq> [] then js ''audit-report-'' @ take 8 j @ js ''.md''
                                  else js ''audit-report.md''
                      | None \<Rightarrow> js ''audit-report.md'')
      in (content, filename))"

text \<open>The code units a sanitized name is made of: letters, digits and the hyphen.\<close>

definition restricted :: "nat \<Rightarrow> bool" where
  "restricted c \<longleftrightarrow> isAlphaNumeric c \<or> c = hyphen"

text \<open>
  The sections of a vulnerability, written as the specification lists them: what an
  optional section contributes, and the description section with one entry per location.
\<close>

definition optional_section :: "string \<Rightarrow> jsstring option \<Rightarrow> jsstring list" where
  "optional_section heading body = (if truthy body then [js heading, the body, []] else [])"

definition description_section :: "Location list \<Rightarrow> jsstring list" where
  "description_section locs =
     (if locs = [] then [] else js ''### Description'' # concat (map location_lines locs) @ [[]])"

text \<open>The three elements a vulnerability contributes to the aggregate report.\<close>

definition report_entry :: "Vulnerability \<Rightarrow> jsstring list" where
  "report_entry vuln = [vulnerabilityToMarkdown vuln, js ''---'', []]"

text \<open>A text contains a line: the line is one of its pieces between line feeds.\<close>

definition contains_line :: "jsstring \<Rightarrow> jsstring \<Rightarrow> bool" where
  "contains_line t l \<longleftrightarrow> l \<in> set (split_lines t)"

section \<open>The launcher of the audit agent\<close>

text \<open>
  The shell script that runs the agent. Its inputs are the environment variables (absent
  or a string), the exit statuses of the commands it runs, and whether each of the two
  output files exists with a size greater than zero after the run.
\<close>

record Launch =
  AGENT_DIR :: "string option"
  SUBMISSION_DIR :: "string option"
  LOGS_DIR :: "string option"
  PI_API_KEY :: "string option"
  PI_MODEL :: "string option"
  PI_BASE_URL :: "string option"
  EVM_BENCH_DETECT_MD :: "string option"
  EVM_BENCH_PI_TIMEOUT_SECONDS :: "string option"
  mkdir_dirs :: nat
  cp_instructions :: nat
  rm_outputs :: nat
  mkdir_config :: nat
  write_models :: nat
  agent :: nat
  audit_json_nonempty :: bool
  audit_md_nonempty :: bool

text \<open>
  How the script ends: with an exit status, or aborted by the shell at a required
  variable that is unset or empty (\<open>${VAR:?message}\<close>), with a non-zero status that
  depends on the shell's version.
\<close>

datatype ending = Exit nat | Missing string

record Outcome =
  ending :: ending
  stderr :: "string list"
  timeout_duration :: "string option"

text \<open>\<open>${VAR:-word}\<close>: the word when the variable is unset or empty.\<close>

definition default_value :: "string option \<Rightarrow> string \<Rightarrow> string" where
  "default_value var word = (case var of None \<Rightarrow> word | Some v \<Rightarrow> if v = [] then word else v)"

text \<open>\<open>${VAR:?message}\<close>: the variable is set and not empty.\<close>

definition required :: "string option \<Rightarrow> bool" where
  "required var = (case var of None \<Rightarrow> False | Some v \<Rightarrow> v \<noteq> [])"

text \<open>\<^verbatim>\<open>=~ ^[0-9]+$\<close>: one or more characters, each a decimal digit.\<close>

definition is_digit :: "char \<Rightarrow> bool" where
  "is_digit c \<longleftrightarrow> of_char c \<ge> (0x30 :: nat) \<and> of_char c \<le> (0x39 :: nat)"

definition all_digits :: "string \<Rightarrow> bool" where
  "all_digits v \<longleftrightarrow> v \<noteq> [] \<and> list_all is_digit v"

definition TIMEOUT_SECONDS :: "Launch \<Rightarrow> string" where
  "TIMEOUT_SECONDS l = default_value (EVM_BENCH_PI_TIMEOUT_SECONDS l) ''10800''"

text \<open>
  The script from the timeout check on. Under \<open>set -e\<close> a command that fails ends the
  script with its status; the status of the agent's pipeline is discarded by
  \<open>|| true\<close>.
\<close>

definition run_agent :: "Launch \<Rightarrow> string \<Rightarrow> Outcome" where
  "run_agent l submission_dir =
     (if \<not> all_digits (TIMEOUT_SECONDS l) then
        \<lparr>ending = Exit 2,
         stderr = [''invalid EVM_BENCH_PI_TIMEOUT_SECONDS='' @ TIMEOUT_SECONDS l],
         timeout_duration = None\<rparr>
      else if cp_instructions l \<noteq> 0 then
        \<lparr>ending = Exit (cp_instructions l), stderr = [], timeout_duration = None\<rparr>
      else if rm_outputs l \<noteq> 0 then
        \<lparr>ending = Exit (rm_outputs l), stderr = [], timeout_duration = None\<rparr>
      else if mkdir_config l \<noteq> 0 then
        \<lparr>ending = Exit (mkdir_config l), stderr = [], timeout_duration = None\<rparr>
      else if write_models l \<noteq> 0 then
        \<lparr>ending = Exit (write_models l), stderr = [], timeout_duration = None\<rparr>
      else if \<not> audit_json_nonempty l \<and> \<not> audit_md_nonempty l then
        \<lparr>ending = Exit 2,
         stderr = [''missing expected output: '' @ submission_dir @ ''/audit.json or audit.md''],
         timeout_duration = Some (TIMEOUT_SECONDS l @ ''s'')\<rparr>
      else
        \<lparr>ending = Exit 0, stderr = [], timeout_duration = Some (TIMEOUT_SECONDS l @ ''s'')\<rparr>)"

fun first_missing :: "(string \<times> string option) list \<Rightarrow> string option" where
  "first_missing [] = None"
| "first_missing ((name, var) # rest) = (if required var then first_missing rest else Some name)"

definition launcher :: "Launch \<Rightarrow> Outcome" where
  "launcher l =
     (case first_missing
             [(''AGENT_DIR'', AGENT_DIR l), (''SUBMISSION_DIR'', SUBMISSION_DIR l),
              (''LOGS_DIR'', LOGS_DIR l), (''PI_API_KEY'', PI_API_KEY l),
              (''PI_MODEL'', PI_MODEL l), (''PI_BASE_URL'', PI_BASE_URL l),
              (''EVM_BENCH_DETECT_MD'', EVM_BENCH_DETECT_MD l)] of
        Some name \<Rightarrow> \<lparr>ending = Missing name, stderr = [], timeout_duration = None\<rparr>
      | None \<Rightarrow>
          if mkdir_dirs l \<noteq> 0 then
            \<lparr>ending = Exit (mkdir_dirs l), stderr = [], timeout_duration = None\<rparr>
          else run_agent l (case SUBMISSION_DIR l of Some d \<Rightarrow> d | None \<Rightarrow> []))"

text \<open>
  The conditions the claims about the exit status stand under: the required variables
  are set and the two directories could be made; the commands before the agent's run
  succeed.
\<close>

definition ready :: "Launch \<Rightarrow> bool" where
  "ready l \<longleftrightarrow>
     required (AGENT_DIR l) \<and> required (SUBMISSION_DIR l) \<and> required (LOGS_DIR l)
     \<and> required (PI_API_KEY l) \<and> required (PI_MODEL l) \<and> required (PI_BASE_URL l)
     \<and> required (EVM_BENCH_DETECT_MD l) \<and> mkdir_dirs l = 0"

definition prepared :: "Launch \<Rightarrow> bool" where
  "prepared l \<longleftrightarrow>
     cp_instructions l = 0 \<and> rm_outputs l = 0 \<and> mkdir_config l = 0 \<and> write_models l = 0"

section \<open>Sample values\<close>

definition job_a :: RecentJob where
  "job_a = \<lparr>job_id = js ''job-a'', label = js ''vault'', created_at_ms = 1, source = Github\<rparr>"

definition job_b :: RecentJob where
  "job_b = \<lparr>job_id = js ''job-b'', label = js ''token'', created_at_ms = 2, source = Files\<rparr>"

definition job_a_again :: RecentJob where
  "job_a_again = \<lparr>job_id = js ''job-a'', label = js ''vault'', created_at_ms = 3, source = Github\<rparr>"

text \<open>Collaborators whose calls resolve, and collaborators whose calls reject.\<close>

definition env_ok :: Collaborators where
  "env_ok = \<lparr>isAuthorized = True, isAuthLoading = False,
     inferPackageName = (\<lambda>fs. Some (js ''token'')),
     createZipFromFiles = (\<lambda>fs name. Inr [0x50, 0x4B]),
     startJob = (\<lambda>z m k. Inr (js ''job-1'')),
     startJobFromGitHub = (\<lambda>u m k. Inr (js ''job-1'')),
     now = 1700000000000, history_cap = 50\<rparr>"




definition page_start :: PageState where
  "page_start = \<lparr>upload = useUploadStore, openaiKey = [], model = js ''claude-opus-4-5'',
     isSubmitting = False, submitError = None, recentJobs = [], requests = [], pushed = []\<rparr>"

definition page_vault :: PageState where
  "page_vault =
     page_start\<lparr>upload := setGitHubUrl (js ''https://github.com/acme/vault'') (setMode Github useUploadStore)\<rparr>"

definition page_ftp :: PageState where
  "page_ftp =
     page_start\<lparr>upload := setGitHubUrl (js ''ftp://github.com/a/b'') (setMode Github useUploadStore)\<rparr>"

text \<open>The vulnerability of the specification's example, and one with a slash in its identifier.\<close>

definition V1 :: Vulnerability where
  "V1 = \<lparr>id' = js ''V-1'', title = js ''Reentrancy'', severity = js ''high'',
     summary = Some (js ''...''), impact = None,
     description = [\<lparr>file' = js ''A.sol'', line_start = 10, line_end = 20, desc = js ''...''\<rparr>],
     proof_of_concept = None, remediation = None\<rparr>"

definition V_slash :: Vulnerability where
  "V_slash = V1\<lparr>id' := js ''V/1''\<rparr>"

text \<open>A launch with every required variable set, and every command succeeding.\<close>

definition launch_ok :: Launch where
  "launch_ok = \<lparr>AGENT_DIR = Some ''/agent'', SUBMISSION_DIR = Some ''/agent/submission'',
     LOGS_DIR = Some ''/logs'', PI_API_KEY = Some ''key'', PI_MODEL = Some ''model'',
     PI_BASE_URL = Some ''http://proxy'', EVM_BENCH_DETECT_MD = Some ''/detect.md'',
     EVM_BENCH_PI_TIMEOUT_SECONDS = None,
     mkdir_dirs = 0, cp_instructions = 0, rm_outputs = 0, mkdir_config = 0, write_models = 0,
     agent = 137, audit_json_nonempty = False, audit_md_nonempty = True\<rparr>"

definition launch_empty_timeout :: Launch where
  "launch_empty_timeout = launch_ok\<lparr>EVM_BENCH_PI_TIMEOUT_SECONDS := Some ''''\<rparr>"

definition launch_bad_timeout :: Launch where
  "launch_bad_timeout = launch_ok\<lparr>EVM_BENCH_PI_TIMEOUT_SECONDS := Some ''1h''\<rparr>"

definition launch_no_output :: Launch where
  "launch_no_output = launch_ok\<lparr>agent := 0, audit_md_nonempty := False\<rparr>"

section \<open>Properties of the upload store\<close>

text \<open>
  Claim C10. For every draft state, \<open>clearUpload\<close> resets \<open>files\<close>, \<open>packageName\<close>,
  \<open>githubUrl\<close> and \<open>fromGitHub\<close> to the values the store is created with and leaves
  \<open>mode\<close> as it is: the cleared state is the initial state with the current mode. So after
  a switch to the repository mode the cleared state is not the initial state, and setting
  its mode back to the initial one gives the initial state.
\<close>

theorem clearUpload_keeps_mode:
  "files (clearUpload s) = files useUploadStore
   \<and> packageName (clearUpload s) = packageName useUploadStore
   \<and> githubUrl (clearUpload s) = githubUrl useUploadStore
   \<and> fromGitHub (clearUpload s) = fromGitHub useUploadStore
   \<and> mode (clearUpload s) = mode s
   \<and> clearUpload s = useUploadStore\<lparr>mode := mode s\<rparr>
   \<and> clearUpload (setMode Github s) \<noteq> useUploadStore
   \<and> (clearUpload (setMode Github s))\<lparr>mode := mode useUploadStore\<rparr> = useUploadStore"
  by (cases s) (simp add: clearUpload_def useUploadStore_def setMode_def)

section \<open>The job history\<close>

lemma addRecentJob_distinct:
  assumes "distinct (map job_id h)"
  shows "distinct (map job_id (addRecentJob cap r h))"
proof -
  let ?rest = "filter (\<lambda>x. job_id x \<noteq> job_id r) h"
  have "distinct (map job_id ?rest)"
    using assms by (rule distinct_map_filter)
  moreover have "job_id r \<notin> set (map job_id ?rest)"
    by auto
  ultimately have "distinct (map job_id (r # ?rest))"
    by simp
  then have "distinct (take cap (map job_id (r # ?rest)))"
    by (rule distinct_take)
  then show ?thesis
    by (simp only: addRecentJob_def take_map)
qed

lemma addRecentJob_length: "length (addRecentJob cap r h) \<le> cap"
  by (simp add: addRecentJob_def)

lemma removeRecentJob_distinct:
  "distinct (map job_id h) \<Longrightarrow> distinct (map job_id (removeRecentJob j h))"
  unfolding removeRecentJob_def by (rule distinct_map_filter)

lemma removeRecentJob_length: "length (removeRecentJob j h) \<le> length h"
  by (simp add: removeRecentJob_def)

lemma removeRecentJob_absent:
  assumes "j \<notin> job_id ` set h"
  shows "removeRecentJob j h = h"
proof -
  have "\<forall>x \<in> set h. job_id x \<noteq> j"
    using assms by auto
  then show ?thesis
    unfolding removeRecentJob_def by (simp add: filter_id_conv)
qed

lemma history_invariant:
  assumes "history cap h"
  shows "distinct (map job_id h) \<and> length h \<le> cap"
  using assms
proof (induction rule: history.induct)
  case empty
  show ?case by simp
next
  case (add h r)
  then show ?case
    by (simp add: addRecentJob_distinct addRecentJob_length)
next
  case (remove h j)
  have "length (removeRecentJob j h) \<le> length h"
    by (rule removeRecentJob_length)
  with remove show ?case
    by (simp add: removeRecentJob_distinct)
next
  case (clear h)
  show ?case by (simp add: clearRecentJobs_def)
qed

text \<open>
  Claim C2. Adding a record to a history without two records of one job identifier gives
  such a history again, with the record at the front in place of a record of the same
  identifier (which occurs exactly once afterwards, for a positive cap); the length of
  the result never exceeds the cap, and the result is a prefix of the uncapped list, so
  the records left out are the oldest; removing an absent identifier returns the list
  unchanged; clearing gives the empty list. Every history built from the empty one by the
  three operations has no two records of one identifier and at most \<open>cap\<close> records.
\<close>

theorem addRecentJob_unique_capped:
  "(distinct (map job_id h) \<longrightarrow> distinct (map job_id (addRecentJob cap r h)))
   \<and> length (addRecentJob cap r h) \<le> cap
   \<and> (0 < cap \<longrightarrow> hd (addRecentJob cap r h) = r
        \<and> filter (\<lambda>x. job_id x = job_id r) (addRecentJob cap r h) = [r])
   \<and> prefix (addRecentJob cap r h) (r # removeRecentJob (job_id r) h)
   \<and> (length (removeRecentJob (job_id r) h) < cap \<longrightarrow>
        addRecentJob cap r h = r # removeRecentJob (job_id r) h)
   \<and> (j \<notin> job_id ` set h \<longrightarrow> removeRecentJob j h = h)
   \<and> clearRecentJobs h = []
   \<and> (history cap h \<longrightarrow> distinct (map job_id h) \<and> length h \<le> cap)"
proof -
  let ?rest = "filter (\<lambda>x. job_id x \<noteq> job_id r) h"
  have front: "hd (addRecentJob cap r h) = r
      \<and> filter (\<lambda>x. job_id x = job_id r) (addRecentJob cap r h) = [r]" if "0 < cap"
  proof -
    from that obtain n where n: "cap = Suc n" by (cases cap) auto
    have "filter (\<lambda>x. job_id x = job_id r) (take n ?rest) = []"
      by (auto simp: filter_empty_conv dest: in_set_takeD)
    then show ?thesis by (simp add: addRecentJob_def n)
  qed
  have pre: "prefix (addRecentJob cap r h) (r # removeRecentJob (job_id r) h)"
    unfolding addRecentJob_def removeRecentJob_def by (rule take_is_prefix)
  have all: "addRecentJob cap r h = r # removeRecentJob (job_id r) h"
    if "length (removeRecentJob (job_id r) h) < cap"
    using that by (simp add: addRecentJob_def removeRecentJob_def)
  show ?thesis
    using addRecentJob_distinct [of h cap r] addRecentJob_length [of cap r h] front pre all
      removeRecentJob_absent [of j h] history_invariant [of cap h]
    by (simp add: clearRecentJobs_def)
qed

theorem addRecentJob_unique_capped_witness:
  "distinct (map job_id [job_b, job_a]) \<and> history 2 [job_b, job_a]
   \<and> js ''job-c'' \<notin> job_id ` set [job_b, job_a]
   \<and> addRecentJob 2 job_a_again [job_b, job_a] = [job_a_again, job_b]
   \<and> distinct (map job_id (addRecentJob 2 job_a_again [job_b, job_a]))
   \<and> removeRecentJob (js ''job-c'') [job_b, job_a] = [job_b, job_a]
   \<and> length [job_b, job_a] \<le> (2::nat)"
proof -
  have d: "distinct (map job_id [job_b, job_a])"
    by (simp add: job_a_def job_b_def js_def)
  have "[job_b, job_a] = addRecentJob 2 job_b (addRecentJob 2 job_a [])"
    by (simp add: addRecentJob_def job_a_def job_b_def js_def numeral_2_eq_2)
  then have h: "history 2 [job_b, job_a]"
    by (simp add: history.add history.empty)
  have c: "js ''job-c'' \<notin> job_id ` set [job_b, job_a]"
    by (simp add: job_a_def job_b_def js_def)
  have e: "addRecentJob 2 job_a_again [job_b, job_a] = [job_a_again, job_b]"
    by (simp add: addRecentJob_def job_a_def job_b_def job_a_again_def js_def numeral_2_eq_2)
  note t = addRecentJob_unique_capped [of "[job_b, job_a]" 2 job_a_again "js ''job-c''"]
  from t d have 1: "distinct (map job_id (addRecentJob 2 job_a_again [job_b, job_a]))"
    by blast
  from t c have 2: "removeRecentJob (js ''job-c'') [job_b, job_a] = [job_b, job_a]"
    by blast
  from t h have 3: "length [job_b, job_a] \<le> (2::nat)"
    by blast
  from d h c e 1 2 3 show ?thesis by blast
qed

section \<open>The validator of repository references\<close>

subsection \<open>The matcher computes the language\<close>

lemma many_set:
  "set (many k s) = {v. \<exists>u. s = u @ v \<and> list_all (cls_matches k) u}"
proof (induction s)
  case Nil
  show ?case by auto
next
  case (Cons c cs)
  show ?case
  proof (cases "cls_matches k c")
    case True
    have "{v. \<exists>u. c # cs = u @ v \<and> list_all (cls_matches k) u}
          = insert (c # cs) {v. \<exists>u. cs = u @ v \<and> list_all (cls_matches k) u}"
      using True by (auto simp: Cons_eq_append_conv)
    then show ?thesis using True Cons.IH by simp
  next
    case False
    have "{v. \<exists>u. c # cs = u @ v \<and> list_all (cls_matches k) u} = {c # cs}"
      using False by (auto simp: Cons_eq_append_conv)
    then show ?thesis using False by simp
  qed
qed

lemma take_eq_iff_append: "take (length w) s = w \<longleftrightarrow> (\<exists>v. s = w @ v)"
proof
  assume "take (length w) s = w"
  then have "s = w @ drop (length w) s" by (metis append_take_drop_id)
  then show "\<exists>v. s = w @ v" ..
next
  assume "\<exists>v. s = w @ v"
  then show "take (length w) s = w" by auto
qed

lemma run_set: "set (run r s) = {v. \<exists>u. s = u @ v \<and> u \<in> lang r}"
proof (induction r arbitrary: s)
  case (Chars w)
  show ?case by (auto simp: take_eq_iff_append)
next
  case (Plus k)
  show ?case
  proof (cases s)
    case Nil
    then show ?thesis by simp
  next
    case (Cons c cs)
    show ?thesis
    proof (cases "cls_matches k c")
      case True
      have "{v. \<exists>u. c # cs = u @ v \<and> u \<in> lang (Plus k)}
            = {v. \<exists>u. cs = u @ v \<and> list_all (cls_matches k) u}"
        using True by (auto simp: Cons_eq_append_conv)
      then show ?thesis using True Cons by (simp add: many_set)
    next
      case False
      have "{v. \<exists>u. c # cs = u @ v \<and> u \<in> lang (Plus k)} = {}"
        using False by (auto simp: Cons_eq_append_conv)
      then show ?thesis using False Cons by simp
    qed
  qed
next
  case (Star k)
  show ?case by (simp add: many_set)
next
  case (Opt r)
  show ?case by (auto simp: Opt.IH)
next
  case (Seq r1 r2)
  show ?case
    apply (simp add: Seq.IH)
    apply (auto)
     apply (metis append.assoc)
    apply (metis append.assoc)
    done
qed

lemma test_lang: "test r s \<longleftrightarrow> s \<in> lang r"
  by (simp add: test_def run_set)

subsection \<open>The pattern and the grammar\<close>

lemma in_lang_Chars_Seq: "w \<in> lang (Seq (Chars c) r) \<longleftrightarrow> (\<exists>v. w = c @ v \<and> v \<in> lang r)"
  by auto

lemma in_lang_Seq: "w \<in> lang (Seq r1 r2) \<longleftrightarrow> (\<exists>u v. w = u @ v \<and> u \<in> lang r1 \<and> v \<in> lang r2)"
  by auto

lemma in_lang_Opt: "w \<in> lang (Opt r) \<longleftrightarrow> w = [] \<or> w \<in> lang r"
  by auto

lemma in_lang_segment: "w \<in> lang (Plus (NotLit slash)) \<longleftrightarrow> segment w"
  by (auto simp: segment_def list_all_iff)

lemma in_lang_seg_Seq:
  "w \<in> lang (Seq (Plus (NotLit slash)) r) \<longleftrightarrow> (\<exists>u v. w = u @ v \<and> segment u \<and> v \<in> lang r)"
  unfolding in_lang_Seq in_lang_segment ..

lemma in_lang_opt_s_Seq:
  "w \<in> lang (Seq (Opt (Chars c)) r) \<longleftrightarrow> w \<in> lang r \<or> (\<exists>v. w = c @ v \<and> v \<in> lang r)"
  by auto

lemma in_lang_dots: "w \<in> lang (Star Dot) \<longleftrightarrow> list_all (\<lambda>c. \<not> isLineTerminator c) w"
  by (simp add: list_all_iff)

lemma in_lang_Chars: "w \<in> lang (Chars c) \<longleftrightarrow> w = c"
  by simp

lemma js_https: "js ''https'' = js ''http'' @ js ''s''"
  by (simp add: js_def)

lemma in_subpath:
  "w \<in> lang subpath_rx \<longleftrightarrow>
     w = [] \<or> (\<exists>subpath. w = js ''/'' @ subpath \<and> list_all (\<lambda>c. \<not> isLineTerminator c) subpath)"
  unfolding subpath_rx_def in_lang_Opt in_lang_Chars_Seq in_lang_dots ..

lemma in_tree:
  "w \<in> lang tree_rx \<longleftrightarrow>
     w = [] \<or> (\<exists>ref rest. w = js ''/tree/'' @ ref @ rest \<and> segment ref \<and> rest \<in> lang subpath_rx)"
  unfolding tree_rx_def in_lang_Opt in_lang_Chars_Seq in_lang_seg_Seq by auto

lemma pattern_split:
  "GITHUB_URL_PATTERN =
     Seq (Chars (js ''http'')) (Seq (Opt (Chars (js ''s''))) (Seq (Chars (js ''://github.com/''))
     (Seq (Plus (NotLit slash)) (Seq (Chars (js ''/'')) (Seq (Plus (NotLit slash)) tree_rx)))))"
  by (simp add: GITHUB_URL_PATTERN_def tree_rx_def subpath_rx_def)

lemma ex_append_split:
  "(\<exists>v. t = h @ s @ v \<and> B v) \<longleftrightarrow> (\<exists>v. t = h @ v \<and> (\<exists>v'. v = s @ v' \<and> B v'))"
  by blast

lemma body_flat:
  "(\<exists>va. v = a @ va \<and> (\<exists>u v2. va = u @ v2 \<and> segment u
        \<and> (\<exists>vb. v2 = b @ vb \<and> (\<exists>u' v3. vb = u' @ v3 \<and> segment u' \<and> v3 \<in> X))))
   \<longleftrightarrow> (\<exists>owner repo suffix. v = a @ owner @ b @ repo @ suffix
        \<and> segment owner \<and> segment repo \<and> suffix \<in> X)"
  (is "?L \<longleftrightarrow> ?R")
proof
  assume ?L
  then show ?R by auto
next
  assume ?R
  then show ?L by blast
qed

lemma in_pattern:
  "t \<in> lang GITHUB_URL_PATTERN \<longleftrightarrow>
     (\<exists>scheme owner repo suffix.
        t = scheme @ js ''://github.com/'' @ owner @ js ''/'' @ repo @ suffix
        \<and> (scheme = js ''http'' \<or> scheme = js ''https'')
        \<and> segment owner \<and> segment repo \<and> suffix \<in> lang tree_rx)"
  (is "?L \<longleftrightarrow> ?R")
proof -
  let ?body = "\<lambda>v. \<exists>owner repo suffix.
        v = js ''://github.com/'' @ owner @ js ''/'' @ repo @ suffix
        \<and> segment owner \<and> segment repo \<and> suffix \<in> lang tree_rx"
  have L: "?L \<longleftrightarrow> (\<exists>v. t = js ''http'' @ v \<and> (?body v \<or> (\<exists>v'. v = js ''s'' @ v' \<and> ?body v')))"
    unfolding pattern_split in_lang_Chars_Seq in_lang_opt_s_Seq in_lang_seg_Seq body_flat ..
  have R: "?R \<longleftrightarrow> (\<exists>scheme. (scheme = js ''http'' \<or> scheme = js ''https'') \<and> (\<exists>v. t = scheme @ v \<and> ?body v))"
    by blast
  have R': "?R \<longleftrightarrow> (\<exists>v. t = js ''http'' @ v \<and> ?body v) \<or> (\<exists>v. t = js ''https'' @ v \<and> ?body v)"
    unfolding R by blast
  have "(\<exists>v. t = js ''https'' @ v \<and> ?body v) \<longleftrightarrow> (\<exists>v. t = js ''http'' @ v \<and> (\<exists>v'. v = js ''s'' @ v' \<and> ?body v'))"
    unfolding js_https append_assoc by (rule ex_append_split)
  then show ?thesis unfolding L R' by blast
qed

lemma test_pattern_grammar: "test GITHUB_URL_PATTERN t \<longleftrightarrow> remote_reference_grammar t"
  unfolding test_lang in_pattern remote_reference_grammar_def in_tree in_subpath ..

lemma dropWhile_all: "list_all P xs \<Longrightarrow> dropWhile P xs = []"
  by (simp add: list_all_iff)

lemma dropWhile_all_append: "list_all P xs \<Longrightarrow> dropWhile P (xs @ ys) = dropWhile P ys"
  by (induction xs) auto

lemma trim_pad:
  assumes a: "list_all isWhiteSpace a" and b: "list_all isWhiteSpace b"
  shows "trim (a @ s @ b) = trim s"
proof -
  have 1: "dropWhile isWhiteSpace (a @ s @ b) = dropWhile isWhiteSpace (s @ b)"
    using a by (rule dropWhile_all_append)
  show ?thesis
  proof (cases "list_all isWhiteSpace s")
    case True
    then have "list_all isWhiteSpace (s @ b)" using b by simp
    then have "dropWhile isWhiteSpace (s @ b) = []" by (rule dropWhile_all)
    moreover have "dropWhile isWhiteSpace s = []" using True by (rule dropWhile_all)
    ultimately show ?thesis using 1 by (simp only: trim_def)
  next
    case False
    then obtain x where x: "x \<in> set s" "\<not> isWhiteSpace x" by (auto simp: list_all_iff)
    then have 2: "dropWhile isWhiteSpace (s @ b) = dropWhile isWhiteSpace s @ b"
      by (simp add: dropWhile_append1)
    have "dropWhile isWhiteSpace (rev b @ rev (dropWhile isWhiteSpace s))
          = dropWhile isWhiteSpace (rev (dropWhile isWhiteSpace s))"
      using b by (simp add: dropWhile_all_append)
    then show ?thesis using 1 2 by (simp add: trim_def)
  qed
qed

lemma trim_blank: "list_all isWhiteSpace a \<Longrightarrow> trim a = []"
  by (simp add: trim_def dropWhile_all)

lemma grammar_nonempty: "\<not> remote_reference_grammar []"
  by (simp add: remote_reference_grammar_def js_def)

text \<open>
  Claim C3. For every string, the validator of the page is true exactly when the trimmed
  string is a word of the anchored pattern, which is exactly when it follows the grammar
  \<open>scheme://github.com/<owner>/<repo>[/tree/<ref>[/<subpath>]]\<close>; the validity shown
  by the URL input is \<open>true\<close> for the same strings. White space before or after the
  string changes neither result, and a string of white space only, the empty string
  among them, is not valid.
\<close>

theorem isValidGitHubUrl_iff_grammar:
  "(isValidGitHubUrl s \<longleftrightarrow> trim s \<in> lang GITHUB_URL_PATTERN)
   \<and> (isValidGitHubUrl s \<longleftrightarrow> remote_reference_grammar (trim s))
   \<and> (isValid s = Some True \<longleftrightarrow> remote_reference_grammar (trim s))
   \<and> (list_all isWhiteSpace a \<and> list_all isWhiteSpace b \<longrightarrow>
        isValidGitHubUrl (a @ s @ b) = isValidGitHubUrl s \<and> isValid (a @ s @ b) = isValid s)
   \<and> (list_all isWhiteSpace a \<longrightarrow> \<not> isValidGitHubUrl a \<and> isValid a = None)
   \<and> \<not> isValidGitHubUrl [] \<and> isValid [] = None"
proof -
  have 1: "isValidGitHubUrl s \<longleftrightarrow> trim s \<in> lang GITHUB_URL_PATTERN"
    by (simp add: isValidGitHubUrl_def test_lang)
  have 2: "isValidGitHubUrl s \<longleftrightarrow> remote_reference_grammar (trim s)"
    by (simp add: isValidGitHubUrl_def test_pattern_grammar)
  have 3: "isValid s = Some True \<longleftrightarrow> remote_reference_grammar (trim s)"
    using grammar_nonempty by (auto simp: isValid_def test_pattern_grammar)
  have 4: "isValidGitHubUrl (a @ s @ b) = isValidGitHubUrl s \<and> isValid (a @ s @ b) = isValid s"
    if "list_all isWhiteSpace a" "list_all isWhiteSpace b"
    using that by (simp add: isValidGitHubUrl_def isValid_def trim_pad)
  have 5: "\<not> isValidGitHubUrl a \<and> isValid a = None" if "list_all isWhiteSpace a" for a
    using that grammar_nonempty
    by (simp add: isValidGitHubUrl_def isValid_def trim_blank test_pattern_grammar)
  have 6: "\<not> isValidGitHubUrl [] \<and> isValid [] = None"
    using 5 [of "[]"] by simp
  from 1 2 3 4 5 6 show ?thesis by blast
qed

theorem isValidGitHubUrl_iff_grammar_witness:
  "list_all isWhiteSpace (js ''  '') \<and> list_all isWhiteSpace [0x0A, 0x3000]
   \<and> isValidGitHubUrl (js ''https://github.com/acme/vault'')
   \<and> isValidGitHubUrl (js ''  '' @ js ''https://github.com/acme/vault'' @ [0x0A, 0x3000])
   \<and> remote_reference_grammar (trim (js ''https://github.com/acme/vault''))
   \<and> isValid (js ''  '' @ js ''https://github.com/acme/vault'' @ [0x0A, 0x3000]) = Some True
   \<and> \<not> isValidGitHubUrl (js ''  '') \<and> isValid (js ''  '') = None"
proof -
  have a: "list_all isWhiteSpace (js ''  '')"
    by (simp add: js_def isWhiteSpace_def)
  have b: "list_all isWhiteSpace [0x0A, 0x3000]"
    by (simp add: isWhiteSpace_def)
  have v: "isValidGitHubUrl (js ''https://github.com/acme/vault'')"
    by (simp add: isValidGitHubUrl_def test_def GITHUB_URL_PATTERN_def js_def trim_def
        isWhiteSpace_def slash_def)
  note t = isValidGitHubUrl_iff_grammar
    [of "js ''https://github.com/acme/vault''" "js ''  ''" "[0x0A, 0x3000]"]
  from t v have g: "remote_reference_grammar (trim (js ''https://github.com/acme/vault''))"
    by simp
  from t g have i: "isValid (js ''https://github.com/acme/vault'') = Some True"
    by simp
  from t a b have p:
    "isValidGitHubUrl (js ''  '' @ js ''https://github.com/acme/vault'' @ [0x0A, 0x3000])
       = isValidGitHubUrl (js ''https://github.com/acme/vault'')"
    "isValid (js ''  '' @ js ''https://github.com/acme/vault'' @ [0x0A, 0x3000])
       = isValid (js ''https://github.com/acme/vault'')"
    by simp_all
  from t a have n: "\<not> isValidGitHubUrl (js ''  '')" "isValid (js ''  '') = None"
    by simp_all
  from p v i have 1:
    "isValidGitHubUrl (js ''  '' @ js ''https://github.com/acme/vault'' @ [0x0A, 0x3000])"
    "isValid (js ''  '' @ js ''https://github.com/acme/vault'' @ [0x0A, 0x3000]) = Some True"
    by simp_all
  from a b v g n 1 show ?thesis by blast
qed

section \<open>Submission\<close>


lemma handleSubmit_resolved:
  assumes "isAuthorized env" and "eligible (upload st)" and "awaited env st = Inr jid"
  shows "upload (handleSubmit env st) = setFromGitHub (mode (upload st) = Github) (upload st)
    \<and> recentJobs (handleSubmit env st) =
        addRecentJob (history_cap env)
          \<lparr>job_id = jid, label = job_name env (upload st), created_at_ms = now env,
           source = mode (upload st)\<rparr>
          (recentJobs st)
    \<and> pushed (handleSubmit env st) = pushed st @ [js ''/results?job_id='' @ jid]
    \<and> submitError (handleSubmit env st) = None
    \<and> \<not> isSubmitting (handleSubmit env st)"
proof (cases "mode (upload st)")
  case Files
  with assms show ?thesis
    by (auto simp: handleSubmit_def awaited_def eligible_def Let_def persist_and_route_def
        finally_block_def setFromGitHub_def split: sum.splits)
next
  case Github
  with assms show ?thesis
    by (auto simp: handleSubmit_def awaited_def eligible_def Let_def persist_and_route_def
        finally_block_def setFromGitHub_def split: sum.splits)
qed

lemma handleSubmit_not_started:
  assumes "\<not> isAuthorized env \<or> \<not> eligible (upload st)"
  shows "upload (handleSubmit env st) = upload st
    \<and> recentJobs (handleSubmit env st) = recentJobs st
    \<and> requests (handleSubmit env st) = requests st
    \<and> pushed (handleSubmit env st) = pushed st"
  using assms
  by (cases "mode (upload st)") (auto simp: handleSubmit_def eligible_def Let_def)

lemma ftp_invalid: "\<not> isValidGitHubUrl (js ''ftp://github.com/a/b'')"
  by (simp add: isValidGitHubUrl_def test_def GITHUB_URL_PATTERN_def js_def trim_def
      isWhiteSpace_def slash_def)

lemma vault_valid: "isValidGitHubUrl (js ''https://github.com/acme/vault'')"
  by (simp add: isValidGitHubUrl_def test_def GITHUB_URL_PATTERN_def js_def trim_def
      isWhiteSpace_def slash_def)

text \<open>
  Claim C4. A submission in the repository mode with a URL that the validator rejects
  sends nothing to the backend (the record of requests is unchanged), adds nothing to
  the job history, routes nowhere and leaves the draft as it is; the submit button is
  disabled for such a state. The URL \<open>ftp://github.com/a/b\<close> is rejected.
\<close>

theorem handleSubmit_invalid_url:
  "(mode (upload st) = Github \<and> \<not> isValidGitHubUrl (githubUrl (upload st)) \<longrightarrow>
      requests (handleSubmit env st) = requests st
      \<and> recentJobs (handleSubmit env st) = recentJobs st
      \<and> pushed (handleSubmit env st) = pushed st
      \<and> upload (handleSubmit env st) = upload st
      \<and> \<not> canSubmit env st)
   \<and> \<not> isValidGitHubUrl (js ''ftp://github.com/a/b'')"
proof -
  have "requests (handleSubmit env st) = requests st
      \<and> recentJobs (handleSubmit env st) = recentJobs st
      \<and> pushed (handleSubmit env st) = pushed st
      \<and> upload (handleSubmit env st) = upload st
      \<and> \<not> canSubmit env st"
    if "mode (upload st) = Github" "\<not> isValidGitHubUrl (githubUrl (upload st))"
    using that handleSubmit_not_started [of env st]
    by (simp add: eligible_def canSubmit_def)
  with ftp_invalid show ?thesis by blast
qed

theorem handleSubmit_invalid_url_witness:
  "mode (upload page_ftp) = Github
   \<and> githubUrl (upload page_ftp) = js ''ftp://github.com/a/b''
   \<and> \<not> isValidGitHubUrl (githubUrl (upload page_ftp))
   \<and> isAuthorized env_ok
   \<and> requests (handleSubmit env_ok page_ftp) = []
   \<and> recentJobs (handleSubmit env_ok page_ftp) = []
   \<and> \<not> canSubmit env_ok page_ftp"
proof -
  have m: "mode (upload page_ftp) = Github"
    and u: "githubUrl (upload page_ftp) = js ''ftp://github.com/a/b''"
    and r: "requests page_ftp = []" "recentJobs page_ftp = []"
    by (simp_all add: page_ftp_def page_start_def setGitHubUrl_def setMode_def)
  have i: "\<not> isValidGitHubUrl (githubUrl (upload page_ftp))"
    unfolding u by (rule ftp_invalid)
  have a: "isAuthorized env_ok"
    by (simp add: env_ok_def)
  from handleSubmit_invalid_url [of page_ftp env_ok] m i
  have k: "requests (handleSubmit env_ok page_ftp) = requests page_ftp"
    "recentJobs (handleSubmit env_ok page_ftp) = recentJobs page_ftp"
    "\<not> canSubmit env_ok page_ftp"
    by blast+
  from k r have "requests (handleSubmit env_ok page_ftp) = []"
    "recentJobs (handleSubmit env_ok page_ftp) = []"
    by simp_all
  with k m u i a show ?thesis by blast
qed






lemma addRecentJob_front: "0 < cap \<Longrightarrow> hd (addRecentJob cap r h) = r"
  by (cases cap) (simp_all add: addRecentJob_def)

lemma blank_url_invalid: "\<not> isValidGitHubUrl []"
  using grammar_nonempty
  by (simp add: isValidGitHubUrl_def trim_def test_pattern_grammar)

lemma eligible_not_cleared:
  assumes "eligible u"
  shows "u\<lparr>fromGitHub := b\<rparr> \<noteq> clearUpload u'" and "u\<lparr>fromGitHub := b\<rparr> \<noteq> useUploadStore"
proof -
  have d: "files u \<noteq> None \<or> githubUrl u \<noteq> []"
    using assms blank_url_invalid by (auto simp: eligible_def split: if_splits)
  show "u\<lparr>fromGitHub := b\<rparr> \<noteq> clearUpload u'"
  proof
    assume eq: "u\<lparr>fromGitHub := b\<rparr> = clearUpload u'"
    have "files (u\<lparr>fromGitHub := b\<rparr>) = files (clearUpload u')"
      by (simp only: eq)
    moreover have "githubUrl (u\<lparr>fromGitHub := b\<rparr>) = githubUrl (clearUpload u')"
      by (simp only: eq)
    ultimately show False
      using d by (simp add: clearUpload_def)
  qed
  show "u\<lparr>fromGitHub := b\<rparr> \<noteq> useUploadStore"
  proof
    assume eq: "u\<lparr>fromGitHub := b\<rparr> = useUploadStore"
    have "files (u\<lparr>fromGitHub := b\<rparr>) = files useUploadStore"
      by (simp only: eq)
    moreover have "githubUrl (u\<lparr>fromGitHub := b\<rparr>) = githubUrl useUploadStore"
      by (simp only: eq)
    ultimately show False
      using d by (simp add: useUploadStore_def)
  qed
qed

text \<open>
  Claim C1, as the code has it. After a submission whose calls resolve with a job
  identifier, the job history is the result of adding the record of the job (with that
  identifier, the label of the selection, the time and the mode), which is at its front
  when the cap is positive, and the page routes to the results of the job. The draft is
  not reset: the mode, the files, the package name and the URL keep their values,
  \<open>fromGitHub\<close> is set to whether the mode is the repository mode, and the draft is
  neither the empty draft nor a cleared one.
\<close>

theorem handleSubmit_success_keeps_draft:
  "isAuthorized env \<and> eligible (upload st) \<and> awaited env st = Inr jid \<longrightarrow>
     recentJobs (handleSubmit env st) =
       addRecentJob (history_cap env)
         \<lparr>job_id = jid, label = job_name env (upload st), created_at_ms = now env,
          source = mode (upload st)\<rparr>
         (recentJobs st)
     \<and> (0 < history_cap env \<longrightarrow>
          hd (recentJobs (handleSubmit env st)) =
            \<lparr>job_id = jid, label = job_name env (upload st), created_at_ms = now env,
             source = mode (upload st)\<rparr>)
     \<and> pushed (handleSubmit env st) = pushed st @ [js ''/results?job_id='' @ jid]
     \<and> upload (handleSubmit env st) = (upload st)\<lparr>fromGitHub := (mode (upload st) = Github)\<rparr>
     \<and> mode (upload (handleSubmit env st)) = mode (upload st)
     \<and> files (upload (handleSubmit env st)) = files (upload st)
     \<and> packageName (upload (handleSubmit env st)) = packageName (upload st)
     \<and> githubUrl (upload (handleSubmit env st)) = githubUrl (upload st)
     \<and> fromGitHub (upload (handleSubmit env st)) = (mode (upload st) = Github)
     \<and> upload (handleSubmit env st) \<noteq> useUploadStore
     \<and> upload (handleSubmit env st) \<noteq> clearUpload (upload st)
     \<and> submitError (handleSubmit env st) = None
     \<and> \<not> isSubmitting (handleSubmit env st)"
proof
  assume h: "isAuthorized env \<and> eligible (upload st) \<and> awaited env st = Inr jid"
  let ?r = "\<lparr>job_id = jid, label = job_name env (upload st), created_at_ms = now env,
             source = mode (upload st)\<rparr>"
  from h have r: "upload (handleSubmit env st) = setFromGitHub (mode (upload st) = Github) (upload st)
    \<and> recentJobs (handleSubmit env st) = addRecentJob (history_cap env) ?r (recentJobs st)
    \<and> pushed (handleSubmit env st) = pushed st @ [js ''/results?job_id='' @ jid]
    \<and> submitError (handleSubmit env st) = None
    \<and> \<not> isSubmitting (handleSubmit env st)"
    using handleSubmit_resolved [of env st jid] by blast
  then have u: "upload (handleSubmit env st) = (upload st)\<lparr>fromGitHub := (mode (upload st) = Github)\<rparr>"
    by (simp add: setFromGitHub_def)
  from h have e: "eligible (upload st)" by blast
  have n: "upload (handleSubmit env st) \<noteq> useUploadStore"
    "upload (handleSubmit env st) \<noteq> clearUpload (upload st)"
    unfolding u using eligible_not_cleared [OF e] by blast+
  have f: "hd (recentJobs (handleSubmit env st)) = ?r" if "0 < history_cap env"
    using r that by (simp add: addRecentJob_front)
  have fields: "mode (upload (handleSubmit env st)) = mode (upload st)"
    "files (upload (handleSubmit env st)) = files (upload st)"
    "packageName (upload (handleSubmit env st)) = packageName (upload st)"
    "githubUrl (upload (handleSubmit env st)) = githubUrl (upload st)"
    "fromGitHub (upload (handleSubmit env st)) = (mode (upload st) = Github)"
    by (simp_all add: u)
  show "recentJobs (handleSubmit env st) = addRecentJob (history_cap env) ?r (recentJobs st)
     \<and> (0 < history_cap env \<longrightarrow> hd (recentJobs (handleSubmit env st)) = ?r)
     \<and> pushed (handleSubmit env st) = pushed st @ [js ''/results?job_id='' @ jid]
     \<and> upload (handleSubmit env st) = (upload st)\<lparr>fromGitHub := (mode (upload st) = Github)\<rparr>
     \<and> mode (upload (handleSubmit env st)) = mode (upload st)
     \<and> files (upload (handleSubmit env st)) = files (upload st)
     \<and> packageName (upload (handleSubmit env st)) = packageName (upload st)
     \<and> githubUrl (upload (handleSubmit env st)) = githubUrl (upload st)
     \<and> fromGitHub (upload (handleSubmit env st)) = (mode (upload st) = Github)
     \<and> upload (handleSubmit env st) \<noteq> useUploadStore
     \<and> upload (handleSubmit env st) \<noteq> clearUpload (upload st)
     \<and> submitError (handleSubmit env st) = None
     \<and> \<not> isSubmitting (handleSubmit env st)"
    apply (intro conjI impI)
    using r apply blast
    using f apply blast
    using r apply blast
    apply (rule u)
    apply (rule fields(1))
    apply (rule fields(2))
    apply (rule fields(3))
    apply (rule fields(4))
    apply (rule fields(5))
    apply (rule n(1))
    apply (rule n(2))
    using r apply blast
    using r apply blast
    done
qed

lemma page_vault_fields:
  "mode (upload page_vault) = Github"
  "githubUrl (upload page_vault) = js ''https://github.com/acme/vault''"
  "recentJobs page_vault = []"
  "isAuthorized env_ok"
  "eligible (upload page_vault)"
  "awaited env_ok page_vault = Inr (js ''job-1'')"
proof -
  show g: "mode (upload page_vault) = Github"
    "githubUrl (upload page_vault) = js ''https://github.com/acme/vault''"
    "recentJobs page_vault = []"
    by (simp_all add: page_vault_def page_start_def setGitHubUrl_def setMode_def)
  show "isAuthorized env_ok"
    by (simp add: env_ok_def)
  show "eligible (upload page_vault)"
    using vault_valid by (simp add: eligible_def g)
  show "awaited env_ok page_vault = Inr (js ''job-1'')"
    by (simp add: awaited_def g env_ok_def)
qed

theorem handleSubmit_success_keeps_draft_witness:
  "isAuthorized env_ok \<and> eligible (upload page_vault)
   \<and> awaited env_ok page_vault = Inr (js ''job-1'')
   \<and> 0 < history_cap env_ok
   \<and> job_id (hd (recentJobs (handleSubmit env_ok page_vault))) = js ''job-1''
   \<and> upload (handleSubmit env_ok page_vault) \<noteq> clearUpload (upload page_vault)
   \<and> map job_id (recentJobs (handleSubmit env_ok page_vault)) = [js ''job-1'']
   \<and> pushed (handleSubmit env_ok page_vault) = [js ''/results?job_id='' @ js ''job-1'']
   \<and> githubUrl (upload (handleSubmit env_ok page_vault)) = js ''https://github.com/acme/vault''
   \<and> fromGitHub (upload (handleSubmit env_ok page_vault))"
proof -
  note f = page_vault_fields
  have p: "pushed page_vault = []"
    by (simp add: page_vault_def page_start_def)
  have c: "history_cap env_ok = 50"
    by (simp add: env_ok_def)
  have c0: "0 < history_cap env_ok"
    by (simp add: c)
  from handleSubmit_success_keeps_draft [of env_ok page_vault "js ''job-1''"] f c0
  have k: "hd (recentJobs (handleSubmit env_ok page_vault)) =
      \<lparr>job_id = js ''job-1'', label = job_name env_ok (upload page_vault),
       created_at_ms = now env_ok, source = mode (upload page_vault)\<rparr>"
    "upload (handleSubmit env_ok page_vault) \<noteq> clearUpload (upload page_vault)"
    by blast+
  from k(1) have k1: "job_id (hd (recentJobs (handleSubmit env_ok page_vault))) = js ''job-1''"
    by simp
  from handleSubmit_success_keeps_draft [of env_ok page_vault "js ''job-1''"] f
  have "map job_id (recentJobs (handleSubmit env_ok page_vault)) = [js ''job-1'']"
    "pushed (handleSubmit env_ok page_vault) = [js ''/results?job_id='' @ js ''job-1'']"
    "githubUrl (upload (handleSubmit env_ok page_vault)) = js ''https://github.com/acme/vault''"
    "fromGitHub (upload (handleSubmit env_ok page_vault))"
    by (simp_all add: addRecentJob_def p c)
  with f c0 k1 k(2) show ?thesis by blast
qed

text \<open>
  The claim as stated fails: after the successful submission of
  \<open>https://github.com/acme/vault\<close> the job is in the history, and the draft still holds
  the URL and is not the empty draft.
\<close>

theorem handleSubmit_success_counterexample:
  "awaited env_ok page_vault = Inr (js ''job-1'')
   \<and> map job_id (recentJobs (handleSubmit env_ok page_vault)) = [js ''job-1'']
   \<and> githubUrl (upload (handleSubmit env_ok page_vault)) = js ''https://github.com/acme/vault''
   \<and> fromGitHub (upload (handleSubmit env_ok page_vault))
   \<and> upload (handleSubmit env_ok page_vault) \<noteq> useUploadStore
   \<and> upload (handleSubmit env_ok page_vault) \<noteq> clearUpload (upload page_vault)"
proof -
  note f = page_vault_fields
  have r: "upload (handleSubmit env_ok page_vault) = setFromGitHub True (upload page_vault)
    \<and> recentJobs (handleSubmit env_ok page_vault) =
        addRecentJob (history_cap env_ok)
          \<lparr>job_id = js ''job-1'', label = job_name env_ok (upload page_vault),
           created_at_ms = now env_ok, source = Github\<rparr> []"
    using handleSubmit_resolved [OF f(4) f(5) f(6)] by (simp add: f)
  have c: "history_cap env_ok = 50"
    by (simp add: env_ok_def)
  have 1: "map job_id (recentJobs (handleSubmit env_ok page_vault)) = [js ''job-1'']"
    using r by (simp add: addRecentJob_def c)
  have 2: "githubUrl (upload (handleSubmit env_ok page_vault)) = js ''https://github.com/acme/vault''"
    "fromGitHub (upload (handleSubmit env_ok page_vault))"
    using r by (simp_all add: setFromGitHub_def f)
  have 3: "upload (handleSubmit env_ok page_vault) \<noteq> useUploadStore"
    "upload (handleSubmit env_ok page_vault) \<noteq> clearUpload (upload page_vault)"
  proof -
    have "fromGitHub (upload (handleSubmit env_ok page_vault))
            \<noteq> fromGitHub useUploadStore"
      using 2 by (simp add: useUploadStore_def)
    then show "upload (handleSubmit env_ok page_vault) \<noteq> useUploadStore"
      by auto
    have "fromGitHub (upload (handleSubmit env_ok page_vault))
            \<noteq> fromGitHub (clearUpload (upload page_vault))"
      using 2 by (simp add: clearUpload_def)
    then show "upload (handleSubmit env_ok page_vault) \<noteq> clearUpload (upload page_vault)"
      by auto
  qed
  from f 1 2 3 show ?thesis by blast
qed

section \<open>The launcher\<close>

lemma launcher_ready:
  assumes "ready l"
  shows "launcher l = run_agent l (case SUBMISSION_DIR l of Some d \<Rightarrow> d | None \<Rightarrow> [])"
  using assms by (simp add: launcher_def ready_def)

lemma names_both_outputs:
  "sublist ''audit.json'' (''missing expected output: '' @ d @ ''/audit.json or audit.md'')"
  "sublist ''audit.md'' (''missing expected output: '' @ d @ ''/audit.json or audit.md'')"
proof -
  have "''missing expected output: '' @ d @ ''/audit.json or audit.md''
        = (''missing expected output: '' @ d @ ''/'') @ ''audit.json'' @ '' or audit.md''"
    by simp
  then show "sublist ''audit.json'' (''missing expected output: '' @ d @ ''/audit.json or audit.md'')"
    by (simp only: sublist_appendI)
  have "''missing expected output: '' @ d @ ''/audit.json or audit.md''
        = (''missing expected output: '' @ d @ ''/audit.json or '') @ ''audit.md'' @ []"
    by simp
  then show "sublist ''audit.md'' (''missing expected output: '' @ d @ ''/audit.json or audit.md'')"
    by (simp only: sublist_appendI)
qed

text \<open>
  Claim C6, as the code has it. With the required variables set and the directories
  made: a timeout variable that is unset or empty stands for 10800; one set to a
  non-empty value that is not a string of decimal digits ends the script with status 2
  before the agent is started. With a valid timeout and the preparing commands done: when
  neither output file exists non-empty after the run, the script ends with status 2 and
  one line on the error stream that names \<open>audit.json\<close> and \<open>audit.md\<close>; otherwise
  it ends with status 0. The exit status of the agent, killed at the timeout or not, has
  no part in the outcome.
\<close>

theorem launcher_exit_status:
  "(EVM_BENCH_PI_TIMEOUT_SECONDS l = None \<or> EVM_BENCH_PI_TIMEOUT_SECONDS l = Some [] \<longrightarrow>
      TIMEOUT_SECONDS l = ''10800'' \<and> all_digits (TIMEOUT_SECONDS l))
   \<and> (ready l \<and> EVM_BENCH_PI_TIMEOUT_SECONDS l = Some v \<and> v \<noteq> [] \<and> \<not> all_digits v \<longrightarrow>
        launcher l = \<lparr>ending = Exit 2, stderr = [''invalid EVM_BENCH_PI_TIMEOUT_SECONDS='' @ v],
                       timeout_duration = None\<rparr>)
   \<and> (ready l \<and> all_digits (TIMEOUT_SECONDS l) \<and> prepared l \<and> SUBMISSION_DIR l = Some d
        \<and> \<not> audit_json_nonempty l \<and> \<not> audit_md_nonempty l \<longrightarrow>
        ending (launcher l) = Exit 2
        \<and> stderr (launcher l) = [''missing expected output: '' @ d @ ''/audit.json or audit.md'']
        \<and> list_all (sublist ''audit.json'') (stderr (launcher l))
        \<and> list_all (sublist ''audit.md'') (stderr (launcher l))
        \<and> timeout_duration (launcher l) = Some (TIMEOUT_SECONDS l @ ''s''))
   \<and> (ready l \<and> all_digits (TIMEOUT_SECONDS l) \<and> prepared l
        \<and> (audit_json_nonempty l \<or> audit_md_nonempty l) \<longrightarrow>
        launcher l = \<lparr>ending = Exit 0, stderr = [],
                       timeout_duration = Some (TIMEOUT_SECONDS l @ ''s'')\<rparr>)
   \<and> launcher (l\<lparr>agent := a\<rparr>) = launcher l"
proof -
  have 1: "TIMEOUT_SECONDS l = ''10800'' \<and> all_digits (TIMEOUT_SECONDS l)"
    if "EVM_BENCH_PI_TIMEOUT_SECONDS l = None \<or> EVM_BENCH_PI_TIMEOUT_SECONDS l = Some []"
    using that by (auto simp: TIMEOUT_SECONDS_def default_value_def all_digits_def is_digit_def)
  have 2: "launcher l = \<lparr>ending = Exit 2, stderr = [''invalid EVM_BENCH_PI_TIMEOUT_SECONDS='' @ v],
                       timeout_duration = None\<rparr>"
    if "ready l" "EVM_BENCH_PI_TIMEOUT_SECONDS l = Some v" "v \<noteq> []" "\<not> all_digits v"
    using that by (simp add: launcher_ready run_agent_def TIMEOUT_SECONDS_def default_value_def)
  have 3: "ending (launcher l) = Exit 2
        \<and> stderr (launcher l) = [''missing expected output: '' @ d @ ''/audit.json or audit.md'']
        \<and> list_all (sublist ''audit.json'') (stderr (launcher l))
        \<and> list_all (sublist ''audit.md'') (stderr (launcher l))
        \<and> timeout_duration (launcher l) = Some (TIMEOUT_SECONDS l @ ''s'')"
    if "ready l" "all_digits (TIMEOUT_SECONDS l)" "prepared l" "SUBMISSION_DIR l = Some d"
      "\<not> audit_json_nonempty l" "\<not> audit_md_nonempty l"
    using that names_both_outputs [of d]
    by (simp add: launcher_ready run_agent_def prepared_def)
  have 4: "launcher l = \<lparr>ending = Exit 0, stderr = [],
                       timeout_duration = Some (TIMEOUT_SECONDS l @ ''s'')\<rparr>"
    if "ready l" "all_digits (TIMEOUT_SECONDS l)" "prepared l"
      "audit_json_nonempty l \<or> audit_md_nonempty l"
    using that by (auto simp: launcher_ready run_agent_def prepared_def)
  have 5: "launcher (l\<lparr>agent := a\<rparr>) = launcher l"
    by (simp add: launcher_def run_agent_def TIMEOUT_SECONDS_def)
  show ?thesis
    apply (intro conjI impI)
    using 1 apply blast
    using 1 apply blast
    using 2 apply blast
    using 3 apply blast
    using 3 apply blast
    using 3 apply blast
    using 3 apply blast
    using 3 apply blast
    using 4 apply blast
    using 5 apply blast
    done
qed

lemma launch_ok_ready:
  "ready launch_ok" "prepared launch_ok" "SUBMISSION_DIR launch_ok = Some ''/agent/submission''"
  "EVM_BENCH_PI_TIMEOUT_SECONDS launch_ok = None"
  "audit_json_nonempty launch_ok \<or> audit_md_nonempty launch_ok"
  by (simp_all add: launch_ok_def ready_def prepared_def required_def)

theorem launcher_exit_status_witness:
  "ready launch_ok \<and> prepared launch_ok \<and> EVM_BENCH_PI_TIMEOUT_SECONDS launch_ok = None
   \<and> (audit_json_nonempty launch_ok \<or> audit_md_nonempty launch_ok)
   \<and> agent launch_ok = 137
   \<and> launcher launch_ok = \<lparr>ending = Exit 0, stderr = [], timeout_duration = Some ''10800s''\<rparr>
   \<and> ready launch_bad_timeout \<and> EVM_BENCH_PI_TIMEOUT_SECONDS launch_bad_timeout = Some ''1h''
   \<and> \<not> all_digits ''1h''
   \<and> ending (launcher launch_bad_timeout) = Exit 2
   \<and> ready launch_no_output \<and> prepared launch_no_output
   \<and> \<not> audit_json_nonempty launch_no_output \<and> \<not> audit_md_nonempty launch_no_output
   \<and> ending (launcher launch_no_output) = Exit 2
   \<and> stderr (launcher launch_no_output)
       = [''missing expected output: /agent/submission/audit.json or audit.md'']"
proof -
  note k = launch_ok_ready
  have g: "agent launch_ok = 137"
    by (simp add: launch_ok_def)
  from launcher_exit_status [where l = launch_ok and v = "''1h''" and d = "''/agent/submission''" and a = 0] k(4)
  have t: "TIMEOUT_SECONDS launch_ok = ''10800''" "all_digits (TIMEOUT_SECONDS launch_ok)"
    by blast+
  from launcher_exit_status [where l = launch_ok and v = "''1h''" and d = "''/agent/submission''" and a = 0] k t(2)
  have "launcher launch_ok = \<lparr>ending = Exit 0, stderr = [],
      timeout_duration = Some (TIMEOUT_SECONDS launch_ok @ ''s'')\<rparr>"
    by simp
  then have 1: "launcher launch_ok
      = \<lparr>ending = Exit 0, stderr = [], timeout_duration = Some ''10800s''\<rparr>"
    by (simp add: t)
  have b: "ready launch_bad_timeout" "EVM_BENCH_PI_TIMEOUT_SECONDS launch_bad_timeout = Some ''1h''"
    "\<not> all_digits ''1h''" "''1h'' \<noteq> []"
    by (simp_all add: launch_bad_timeout_def launch_ok_def ready_def required_def all_digits_def
        is_digit_def)
  from launcher_exit_status [where l = launch_bad_timeout and v = "''1h''" and d = "''/agent/submission''" and a = 0] b
  have 2: "ending (launcher launch_bad_timeout) = Exit 2"
    by simp
  have n: "ready launch_no_output" "prepared launch_no_output"
    "\<not> audit_json_nonempty launch_no_output" "\<not> audit_md_nonempty launch_no_output"
    "SUBMISSION_DIR launch_no_output = Some ''/agent/submission''"
    "EVM_BENCH_PI_TIMEOUT_SECONDS launch_no_output = None"
    by (simp_all add: launch_no_output_def launch_ok_def ready_def prepared_def required_def)
  from launcher_exit_status [where l = launch_no_output and v = "''1h''" and d = "''/agent/submission''" and a = 0] n(6)
  have tn: "all_digits (TIMEOUT_SECONDS launch_no_output)"
    by blast
  from launcher_exit_status [where l = launch_no_output and v = "''1h''" and d = "''/agent/submission''" and a = 0] n tn
  have 3: "ending (launcher launch_no_output) = Exit 2"
    "stderr (launcher launch_no_output)
       = [''missing expected output: '' @ ''/agent/submission'' @ ''/audit.json or audit.md'']"
    by simp_all
  from 3(2) have 4: "stderr (launcher launch_no_output)
       = [''missing expected output: /agent/submission/audit.json or audit.md'']"
    by simp
  from k g 1 b 2 n 3(1) 4 show ?thesis by simp
qed

text \<open>
  The claim as stated fails at the empty value: it is set and is not a non-negative
  integer, and the script runs the agent with the default of 10800 seconds and ends with
  status 0.
\<close>

theorem launcher_empty_timeout_counterexample:
  "EVM_BENCH_PI_TIMEOUT_SECONDS launch_empty_timeout = Some ''''
   \<and> \<not> all_digits ''''
   \<and> launcher launch_empty_timeout
       = \<lparr>ending = Exit 0, stderr = [], timeout_duration = Some ''10800s''\<rparr>
   \<and> ending (launcher launch_empty_timeout) \<noteq> Exit 2"
  by (simp add: launch_empty_timeout_def launch_ok_def launcher_def run_agent_def required_def
      TIMEOUT_SECONDS_def default_value_def all_digits_def is_digit_def)

section \<open>The report exporter\<close>

subsection \<open>Lines of a joined text\<close>

lemma split_lines_not_Nil: "split_lines s \<noteq> []"
  by (induction s) (auto split: list.splits)

lemma split_lines_append_lf: "split_lines (xs @ 0x0A # ys) = split_lines xs @ split_lines ys"
proof (induction xs)
  case Nil
  show ?case by simp
next
  case (Cons c xs)
  show ?case
  proof (cases "c = 0x0A")
    case True
    with Cons show ?thesis by simp
  next
    case False
    obtain l ls where l: "split_lines xs = l # ls"
      using split_lines_not_Nil [of xs] by (cases "split_lines xs") auto
    with False Cons show ?thesis by simp
  qed
qed

lemma split_lines_single: "0x0A \<notin> set l \<Longrightarrow> split_lines l = [l]"
  by (induction l) auto

lemma split_lines_join:
  "ls \<noteq> [] \<Longrightarrow> split_lines (join [0x0A] ls) = concat (map split_lines ls)"
proof (induction ls)
  case Nil
  then show ?case by simp
next
  case (Cons x ls)
  show ?case
  proof (cases ls)
    case Nil
    then show ?thesis by simp
  next
    case (Cons y ys)
    have "split_lines (join [0x0A] (x # y # ys)) = split_lines (x @ 0x0A # join [0x0A] (y # ys))"
      by simp
    also have "\<dots> = split_lines x @ split_lines (join [0x0A] (y # ys))"
      by (rule split_lines_append_lf)
    finally show ?thesis using Cons Cons.IH by simp
  qed
qed

lemma line_of_join:
  assumes "l \<in> set ls" and "0x0A \<notin> set l"
  shows "l \<in> set (split_lines (join [0x0A] ls))"
proof -
  from assms(1) have "ls \<noteq> []" by auto
  then have "set (split_lines (join [0x0A] ls)) = (\<Union>x \<in> set ls. set (split_lines x))"
    by (simp add: split_lines_join)
  moreover have "l \<in> set (split_lines l)"
    using assms(2) by (simp add: split_lines_single)
  ultimately show ?thesis using assms(1) by blast
qed

lemma lines_of_join_element:
  assumes "x \<in> set ls" and "l \<in> set (split_lines x)"
  shows "l \<in> set (split_lines (join [0x0A] ls))"
proof -
  from assms(1) have "ls \<noteq> []" by auto
  then have "set (split_lines (join [0x0A] ls)) = (\<Union>x \<in> set ls. set (split_lines x))"
    by (simp add: split_lines_join)
  then show ?thesis using assms by blast
qed

subsection \<open>The loops\<close>

lemma foldl_push_location:
  "foldl push_location acc locs = acc @ concat (map location_lines locs)"
  by (induction locs arbitrary: acc) (simp_all add: push_location_def)

lemma foldl_push_vulnerability:
  "foldl push_vulnerability acc vs = acc @ concat (map report_entry vs)"
  by (induction vs arbitrary: acc) (simp_all add: push_vulnerability_def report_entry_def)

lemma push_section_optional: "push_section h b lines = lines @ optional_section h b"
  by (simp add: push_section_def optional_section_def truthy_def split: option.splits)

lemma vulnerability_lines_sections:
  "vulnerability_lines vuln =
     [js ''## '' @ id' vuln @ js '': '' @ title vuln, [],
      js ''**Severity:** '' @ toUpperCase (severity vuln), []]
     @ optional_section ''### Summary'' (summary vuln)
     @ optional_section ''### Impact'' (impact vuln)
     @ description_section (description vuln)
     @ optional_section ''### Proof of Concept'' (proof_of_concept vuln)
     @ optional_section ''### Remediation'' (remediation vuln)"
  by (simp add: vulnerability_lines_def Let_def push_section_optional foldl_push_location
      description_section_def)

lemma report_lines_entries:
  "report_lines vs jobId = report_head vs jobId @ concat (map report_entry vs)"
  by (simp add: report_lines_def foldl_push_vulnerability)

lemma lines_of_report:
  assumes "l \<in> set (split_lines (vulnerabilityToMarkdown vuln))"
  shows "l \<in> set (split_lines (generateVulnerabilityMarkdown vuln))"
    and "vuln \<in> set vs \<Longrightarrow> l \<in> set (split_lines (generateAllVulnerabilitiesMarkdown vs jobId))"
proof -
  have "generateVulnerabilityMarkdown vuln
        = js ''# Vulnerability Report'' @ 0x0A # ([] @ 0x0A # vulnerabilityToMarkdown vuln)"
    by (simp add: generateVulnerabilityMarkdown_def)
  then have "split_lines (generateVulnerabilityMarkdown vuln)
        = split_lines (js ''# Vulnerability Report'') @ split_lines []
          @ split_lines (vulnerabilityToMarkdown vuln)"
    by (simp only: split_lines_append_lf)
  with assms show "l \<in> set (split_lines (generateVulnerabilityMarkdown vuln))"
    by simp
next
  assume "vuln \<in> set vs"
  then have "vulnerabilityToMarkdown vuln \<in> set (report_lines vs jobId)"
    by (auto simp: report_lines_entries report_entry_def)
  from this assms show "l \<in> set (split_lines (generateAllVulnerabilitiesMarkdown vs jobId))"
    unfolding generateAllVulnerabilitiesMarkdown_def by (rule lines_of_join_element)
qed

lemma contains_line_element:
  assumes "l \<in> set (vulnerability_lines vuln)" and "0x0A \<notin> set l"
  shows "contains_line (vulnerabilityToMarkdown vuln) l"
    and "contains_line (generateVulnerabilityMarkdown vuln) l"
    and "contains_line (generateAllVulnerabilitiesMarkdown [vuln] jobId) l"
proof -
  have m: "l \<in> set (split_lines (vulnerabilityToMarkdown vuln))"
    unfolding vulnerabilityToMarkdown_def using assms by (rule line_of_join)
  then show "contains_line (vulnerabilityToMarkdown vuln) l"
    by (simp add: contains_line_def)
  from m show "contains_line (generateVulnerabilityMarkdown vuln) l"
    unfolding contains_line_def by (rule lines_of_report(1))
  have "vuln \<in> set [vuln]" by simp
  with m show "contains_line (generateAllVulnerabilitiesMarkdown [vuln] jobId) l"
    unfolding contains_line_def by (rule lines_of_report(2))
qed

text \<open>
  Claim C7. For a vulnerability with the identifier \<open>V-1\<close>, the title \<open>Reentrancy\<close>,
  the severity \<open>high\<close> and one location in \<open>A.sol\<close> from line 10 to line 20, whatever
  its texts, each output of the exporter (the section, the single report, the aggregate
  report) contains the lines \<open>## V-1: Reentrancy\<close>, \<open>**Severity:** HIGH\<close> and
  \<^verbatim>\<open>**File:** `A.sol` (lines 10-20)\<close>. For every vulnerability the section is made
  of the heading with identifier and title, the severity in upper case, the optional
  summary and impact, the description with the entry of each location in the order of the
  input (file and line range, then the explanation), and the optional proof of concept
  and remediation; the aggregate report holds the sections in the order of the input,
  each followed by a rule.
\<close>

theorem vulnerabilityToMarkdown_sections:
  "(id' vuln = js ''V-1'' \<and> title vuln = js ''Reentrancy'' \<and> severity vuln = js ''high''
      \<and> description vuln
          = [\<lparr>file' = js ''A.sol'', line_start = 10, line_end = 20, desc = explanation\<rparr>] \<longrightarrow>
      list_all (\<lambda>output.
          contains_line output (js ''## V-1: Reentrancy'')
          \<and> contains_line output (js ''**Severity:** HIGH'')
          \<and> contains_line output (js ''**File:** `A.sol` (lines 10-20)''))
        [vulnerabilityToMarkdown vuln, generateVulnerabilityMarkdown vuln,
         generateAllVulnerabilitiesMarkdown [vuln] jobId])
   \<and> vulnerability_lines vuln =
       [js ''## '' @ id' vuln @ js '': '' @ title vuln, [],
        js ''**Severity:** '' @ toUpperCase (severity vuln), []]
       @ optional_section ''### Summary'' (summary vuln)
       @ optional_section ''### Impact'' (impact vuln)
       @ description_section (description vuln)
       @ optional_section ''### Proof of Concept'' (proof_of_concept vuln)
       @ optional_section ''### Remediation'' (remediation vuln)
   \<and> location_lines loc =
       [[], js ''**File:** `'' @ file' loc @ js ''` (lines '' @ numberToString (line_start loc)
              @ js ''-'' @ numberToString (line_end loc) @ js '')'', [], desc loc]
   \<and> vulnerabilityToMarkdown vuln = join [0x0A] (vulnerability_lines vuln)
   \<and> report_lines vs jobId = report_head vs jobId @ concat (map report_entry vs)"
proof -
  have ex: "list_all (\<lambda>output.
          contains_line output (js ''## V-1: Reentrancy'')
          \<and> contains_line output (js ''**Severity:** HIGH'')
          \<and> contains_line output (js ''**File:** `A.sol` (lines 10-20)''))
        [vulnerabilityToMarkdown vuln, generateVulnerabilityMarkdown vuln,
         generateAllVulnerabilitiesMarkdown [vuln] jobId]"
    if h: "id' vuln = js ''V-1''" "title vuln = js ''Reentrancy''" "severity vuln = js ''high''"
      "description vuln
          = [\<lparr>file' = js ''A.sol'', line_start = 10, line_end = 20, desc = explanation\<rparr>]"
  proof -
    have 1: "js ''## V-1: Reentrancy'' \<in> set (vulnerability_lines vuln)"
      by (simp add: vulnerability_lines_sections h js_def)
    have 2: "js ''**Severity:** HIGH'' \<in> set (vulnerability_lines vuln)"
      by (simp add: vulnerability_lines_sections h js_def toUpperCase_def)
    have "js ''**File:** `A.sol` (lines 10-20)'' \<in> set (description_section (description vuln))"
      by (simp add: h description_section_def location_lines_def numberToString_def
          decimal.simps js_def)
    then have 3: "js ''**File:** `A.sol` (lines 10-20)'' \<in> set (vulnerability_lines vuln)"
      by (simp add: vulnerability_lines_sections)
    have n: "0x0A \<notin> set (js ''## V-1: Reentrancy'')" "0x0A \<notin> set (js ''**Severity:** HIGH'')"
      "0x0A \<notin> set (js ''**File:** `A.sol` (lines 10-20)'')"
      by (simp_all add: js_def)
    show ?thesis
      using contains_line_element [OF 1 n(1)] contains_line_element [OF 2 n(2)]
        contains_line_element [OF 3 n(3)]
      by simp
  qed
  have loc: "location_lines loc =
       [[], js ''**File:** `'' @ file' loc @ js ''` (lines '' @ numberToString (line_start loc)
              @ js ''-'' @ numberToString (line_end loc) @ js '')'', [], desc loc]"
    by (simp add: location_lines_def)
  show ?thesis
    apply (intro conjI impI)
    using ex apply blast
    apply (rule vulnerability_lines_sections)
    apply (rule loc)
    apply (rule vulnerabilityToMarkdown_def)
    apply (rule report_lines_entries)
    done
qed

theorem vulnerabilityToMarkdown_sections_witness:
  "id' V1 = js ''V-1'' \<and> title V1 = js ''Reentrancy'' \<and> severity V1 = js ''high''
   \<and> description V1 = [\<lparr>file' = js ''A.sol'', line_start = 10, line_end = 20, desc = js ''...''\<rparr>]
   \<and> contains_line (generateVulnerabilityMarkdown V1) (js ''## V-1: Reentrancy'')
   \<and> contains_line (generateVulnerabilityMarkdown V1) (js ''**Severity:** HIGH'')
   \<and> contains_line (generateVulnerabilityMarkdown V1) (js ''**File:** `A.sol` (lines 10-20)'')
   \<and> contains_line (generateAllVulnerabilitiesMarkdown [V1] None) (js ''## V-1: Reentrancy'')"
proof -
  have h: "id' V1 = js ''V-1''" "title V1 = js ''Reentrancy''" "severity V1 = js ''high''"
    "description V1 = [\<lparr>file' = js ''A.sol'', line_start = 10, line_end = 20, desc = js ''...''\<rparr>]"
    by (simp_all add: V1_def)
  from vulnerabilityToMarkdown_sections
    [where vuln = V1 and explanation = "js ''...''" and jobId = None and vs = "[]"
      and loc = "\<lparr>file' = [], line_start = 0, line_end = 0, desc = []\<rparr>"] h
  have "list_all (\<lambda>output.
          contains_line output (js ''## V-1: Reentrancy'')
          \<and> contains_line output (js ''**Severity:** HIGH'')
          \<and> contains_line output (js ''**File:** `A.sol` (lines 10-20)''))
        [vulnerabilityToMarkdown V1, generateVulnerabilityMarkdown V1,
         generateAllVulnerabilitiesMarkdown [V1] None]"
    by blast
  with h show ?thesis by simp
qed

lemma report_head_empty:
  "report_head [] jobId =
     [js ''# Security Audit Report'', []]
     @ (case jobId of Some j \<Rightarrow> if j \<noteq> [] then [js ''**Job ID:** '' @ j, []] else [] | None \<Rightarrow> [])
     @ [js ''**Total Vulnerabilities:** 0'', [], js ''### Summary by Severity'', [], [],
        js ''---'', []]"
  by (simp add: report_head_def bySeverity_def decimal.simps js_def split: option.splits)

lemma section_starts_with_heading: "prefix (js ''## '') (vulnerabilityToMarkdown vuln)"
  by (simp add: vulnerabilityToMarkdown_def vulnerability_lines_sections)

lemma report_head_empty_no_heading:
  "filter (prefix (js ''## '')) (report_head [] jobId) = []"
  by (simp add: report_head_empty js_def split: option.splits)

text \<open>
  Claim C8. The aggregate report of the empty list, with any job identifier or none,
  contains the line \<open>**Total Vulnerabilities:** 0\<close>. The array it joins is the header
  alone (title, the job identifier if there is one, the total, the empty summary by
  severity, the rule): the loop over the vulnerabilities adds nothing, no element is the
  section of a vulnerability and none starts with the heading mark of a section. Without
  a job identifier the lines of the text are exactly those of the header.
\<close>

theorem generateAllVulnerabilitiesMarkdown_empty:
  "contains_line (generateAllVulnerabilitiesMarkdown [] jobId) (js ''**Total Vulnerabilities:** 0'')
   \<and> report_lines [] jobId =
       [js ''# Security Audit Report'', []]
       @ (case jobId of Some j \<Rightarrow> if j \<noteq> [] then [js ''**Job ID:** '' @ j, []] else [] | None \<Rightarrow> [])
       @ [js ''**Total Vulnerabilities:** 0'', [], js ''### Summary by Severity'', [], [],
          js ''---'', []]
   \<and> filter (prefix (js ''## '')) (report_lines [] jobId) = []
   \<and> vulnerabilityToMarkdown vuln \<notin> set (report_lines [] jobId)
   \<and> split_lines (generateAllVulnerabilitiesMarkdown [] None) =
       [js ''# Security Audit Report'', [], js ''**Total Vulnerabilities:** 0'', [],
        js ''### Summary by Severity'', [], [], js ''---'', []]
   \<and> (0x0A \<notin> set j \<and> j \<noteq> [] \<longrightarrow>
        split_lines (generateAllVulnerabilitiesMarkdown [] (Some j)) =
          [js ''# Security Audit Report'', [], js ''**Job ID:** '' @ j, [],
           js ''**Total Vulnerabilities:** 0'', [], js ''### Summary by Severity'', [], [],
           js ''---'', []])"
proof -
  have r: "report_lines [] jobId = report_head [] jobId" for jobId
    by (simp add: report_lines_def)
  have "js ''**Total Vulnerabilities:** 0'' \<in> set (report_lines [] jobId)"
    by (simp add: r report_head_empty split: option.splits)
  moreover have "0x0A \<notin> set (js ''**Total Vulnerabilities:** 0'')"
    by (simp add: js_def)
  ultimately have 1: "contains_line (generateAllVulnerabilitiesMarkdown [] jobId)
      (js ''**Total Vulnerabilities:** 0'')"
    unfolding contains_line_def generateAllVulnerabilitiesMarkdown_def by (rule line_of_join)
  have 3: "filter (prefix (js ''## '')) (report_lines [] jobId) = []"
    by (simp only: r report_head_empty_no_heading)
  have 4: "vulnerabilityToMarkdown vuln \<notin> set (report_lines [] jobId)"
  proof
    assume "vulnerabilityToMarkdown vuln \<in> set (report_lines [] jobId)"
    with section_starts_with_heading [of vuln]
    have "vulnerabilityToMarkdown vuln \<in> set (filter (prefix (js ''## '')) (report_lines [] jobId))"
      by simp
    with 3 show False by simp
  qed
  have 5: "split_lines (generateAllVulnerabilitiesMarkdown [] None) =
       [js ''# Security Audit Report'', [], js ''**Total Vulnerabilities:** 0'', [],
        js ''### Summary by Severity'', [], [], js ''---'', []]"
    by (simp add: generateAllVulnerabilitiesMarkdown_def r report_head_empty split_lines_join
        split_lines_single js_def)
  have 6: "split_lines (generateAllVulnerabilitiesMarkdown [] (Some j)) =
          [js ''# Security Audit Report'', [], js ''**Job ID:** '' @ j, [],
           js ''**Total Vulnerabilities:** 0'', [], js ''### Summary by Severity'', [], [],
           js ''---'', []]"
    if "0x0A \<notin> set j" "j \<noteq> []"
  proof -
    have "0x0A \<notin> set (js ''**Job ID:** '' @ j)"
      using that by (simp add: js_def)
    then have "split_lines (js ''**Job ID:** '' @ j) = [js ''**Job ID:** '' @ j]"
      by (rule split_lines_single)
    moreover have "split_lines (js ''# Security Audit Report'') = [js ''# Security Audit Report'']"
      "split_lines (js ''**Total Vulnerabilities:** 0'') = [js ''**Total Vulnerabilities:** 0'']"
      "split_lines (js ''### Summary by Severity'') = [js ''### Summary by Severity'']"
      "split_lines (js ''---'') = [js ''---'']"
      by (simp_all add: split_lines_single js_def)
    ultimately have singles:
      "concat (map split_lines
          [js ''# Security Audit Report'', [], js ''**Job ID:** '' @ j, [],
           js ''**Total Vulnerabilities:** 0'', [], js ''### Summary by Severity'', [], [],
           js ''---'', []])
        = [js ''# Security Audit Report'', [], js ''**Job ID:** '' @ j, [],
           js ''**Total Vulnerabilities:** 0'', [], js ''### Summary by Severity'', [], [],
           js ''---'', []]"
      by simp
    have rl: "report_lines [] (Some j)
        = [js ''# Security Audit Report'', [], js ''**Job ID:** '' @ j, [],
           js ''**Total Vulnerabilities:** 0'', [], js ''### Summary by Severity'', [], [],
           js ''---'', []]"
      using that by (simp add: r report_head_empty)
    have "split_lines (join [0x0A] (report_lines [] (Some j)))
        = concat (map split_lines (report_lines [] (Some j)))"
      by (rule split_lines_join) (simp add: rl)
    then show ?thesis
      unfolding generateAllVulnerabilitiesMarkdown_def by (simp only: rl singles)
  qed
  show ?thesis
    apply (intro conjI impI)
    apply (rule 1)
    apply (simp only: r report_head_empty)
    apply (rule 3)
    apply (rule 4)
    apply (rule 5)
    using 6 apply blast
    done
qed

theorem generateAllVulnerabilitiesMarkdown_empty_witness:
  "0x0A \<notin> set (js ''job-1'') \<and> js ''job-1'' \<noteq> []
   \<and> split_lines (generateAllVulnerabilitiesMarkdown [] (Some (js ''job-1''))) =
        [js ''# Security Audit Report'', [], js ''**Job ID:** job-1'', [],
         js ''**Total Vulnerabilities:** 0'', [], js ''### Summary by Severity'', [], [],
         js ''---'', []]
   \<and> contains_line (generateAllVulnerabilitiesMarkdown [] (Some (js ''job-1'')))
        (js ''**Total Vulnerabilities:** 0'')"
proof -
  have h: "0x0A \<notin> set (js ''job-1'')" "js ''job-1'' \<noteq> []"
    by (simp_all add: js_def)
  note t = generateAllVulnerabilitiesMarkdown_empty
    [where jobId = "Some (js ''job-1'')" and j = "js ''job-1''" and vuln = V1]
  from t h have "split_lines (generateAllVulnerabilitiesMarkdown [] (Some (js ''job-1''))) =
          [js ''# Security Audit Report'', [], js ''**Job ID:** '' @ js ''job-1'', [],
           js ''**Total Vulnerabilities:** 0'', [], js ''### Summary by Severity'', [], [],
           js ''---'', []]"
    by blast
  moreover have "js ''**Job ID:** '' @ js ''job-1'' = js ''**Job ID:** job-1''"
    by (simp add: js_def)
  moreover from t have "contains_line (generateAllVulnerabilitiesMarkdown [] (Some (js ''job-1'')))
        (js ''**Total Vulnerabilities:** 0'')"
    by blast
  ultimately show ?thesis using h by simp
qed

subsection \<open>File names\<close>

lemma sanitize_restricted: "list_all restricted (sanitize s)"
  by (induction s) (simp_all add: sanitize_def restricted_def)

text \<open>
  Claim C9, as the code has it. The file name of the single export is the identifier as
  it is, a hyphen, the first 30 code units of the title with every code unit that is not
  a letter or a digit replaced by a hyphen, and \<open>.md\<close>: the part made from the title
  consists of letters, digits and hyphens, and so does the whole name before \<open>.md\<close>
  when the identifier does. The file name of the aggregate export is \<open>audit-report-\<close>,
  the first 8 code units of the job identifier and \<open>.md\<close>, or \<open>audit-report.md\<close>
  without a job identifier.
\<close>

theorem download_filenames:
  "snd (downloadVulnerability vuln)
     = id' vuln @ js ''-'' @ sanitize (take 30 (title vuln)) @ js ''.md''
   \<and> list_all restricted (sanitize (take 30 (title vuln)))
   \<and> length (sanitize (take 30 (title vuln))) = min 30 (length (title vuln))
   \<and> (list_all restricted (id' vuln) \<longrightarrow>
        (\<exists>stem. snd (downloadVulnerability vuln) = stem @ js ''.md'' \<and> list_all restricted stem))
   \<and> snd (downloadAllVulnerabilities vs jobId)
       = (case jobId of
            Some j \<Rightarrow> if j \<noteq> [] then js ''audit-report-'' @ take 8 j @ js ''.md''
                      else js ''audit-report.md''
          | None \<Rightarrow> js ''audit-report.md'')
   \<and> fst (downloadVulnerability vuln) = generateVulnerabilityMarkdown vuln
   \<and> fst (downloadAllVulnerabilities vs jobId) = generateAllVulnerabilitiesMarkdown vs jobId"
proof -
  have n: "snd (downloadVulnerability vuln)
     = id' vuln @ js ''-'' @ sanitize (take 30 (title vuln)) @ js ''.md''"
    by (simp add: downloadVulnerability_def)
  have s: "list_all restricted (sanitize (take 30 (title vuln)))"
    by (rule sanitize_restricted)
  have l: "length (sanitize (take 30 (title vuln))) = min 30 (length (title vuln))"
    by (simp add: sanitize_def min.commute)
  have e: "\<exists>stem. snd (downloadVulnerability vuln) = stem @ js ''.md'' \<and> list_all restricted stem"
    if i: "list_all restricted (id' vuln)"
  proof -
    have "list_all restricted (id' vuln @ js ''-'' @ sanitize (take 30 (title vuln)))"
      using i s by (simp add: js_def restricted_def hyphen_def)
    moreover have "snd (downloadVulnerability vuln)
        = (id' vuln @ js ''-'' @ sanitize (take 30 (title vuln))) @ js ''.md''"
      using n by simp
    ultimately show ?thesis by blast
  qed
  have a: "snd (downloadAllVulnerabilities vs jobId)
       = (case jobId of
            Some j \<Rightarrow> if j \<noteq> [] then js ''audit-report-'' @ take 8 j @ js ''.md''
                      else js ''audit-report.md''
          | None \<Rightarrow> js ''audit-report.md'')"
    by (simp add: downloadAllVulnerabilities_def)
  show ?thesis
    apply (intro conjI impI)
    apply (rule n)
    apply (rule s)
    apply (rule l)
    using e apply blast
    apply (rule a)
    apply (simp add: downloadVulnerability_def)
    apply (simp add: downloadAllVulnerabilities_def)
    done
qed

theorem download_filenames_witness:
  "list_all restricted (id' V1)
   \<and> snd (downloadVulnerability V1) = js ''V-1-Reentrancy.md''
   \<and> (\<exists>stem. snd (downloadVulnerability V1) = stem @ js ''.md'' \<and> list_all restricted stem)
   \<and> snd (downloadAllVulnerabilities [V1] (Some (js ''0123456789abcdef'')))
       = js ''audit-report-01234567.md''"
proof -
  have i: "list_all restricted (id' V1)"
    by (simp add: V1_def js_def restricted_def isAlphaNumeric_def hyphen_def)
  note t = download_filenames [where vuln = V1 and vs = "[V1]" and jobId = "Some (js ''0123456789abcdef'')"]
  from t i have 1: "\<exists>stem. snd (downloadVulnerability V1) = stem @ js ''.md'' \<and> list_all restricted stem"
    by blast
  from t have "snd (downloadVulnerability V1) = id' V1 @ js ''-'' @ sanitize (take 30 (title V1)) @ js ''.md''"
    by blast
  then have 2: "snd (downloadVulnerability V1) = js ''V-1-Reentrancy.md''"
    by (simp add: V1_def js_def sanitize_def isAlphaNumeric_def hyphen_def)
  from t have "snd (downloadAllVulnerabilities [V1] (Some (js ''0123456789abcdef'')))
       = (case Some (js ''0123456789abcdef'') of
            Some j \<Rightarrow> if j \<noteq> [] then js ''audit-report-'' @ take 8 j @ js ''.md''
                      else js ''audit-report.md''
          | None \<Rightarrow> js ''audit-report.md'')"
    by blast
  then have 3: "snd (downloadAllVulnerabilities [V1] (Some (js ''0123456789abcdef'')))
       = js ''audit-report-01234567.md''"
    by (simp add: js_def)
  from i 1 2 3 show ?thesis by blast
qed

text \<open>
  The claim as stated fails: the identifier is not sanitized. For the identifier \<open>V/1\<close>
  the file name is \<open>V/1-Reentrancy.md\<close>, whose slash is neither a letter, a digit, a
  hyphen nor the dot of the suffix.
\<close>

theorem downloadVulnerability_filename_counterexample:
  "id' V_slash = js ''V/1''
   \<and> snd (downloadVulnerability V_slash) = js ''V/1-Reentrancy.md''
   \<and> slash \<in> set (snd (downloadVulnerability V_slash))
   \<and> \<not> restricted slash
   \<and> \<not> list_all (\<lambda>c. restricted c \<or> c = 0x2E) (snd (downloadVulnerability V_slash))"
  by (simp add: V_slash_def V1_def downloadVulnerability_def js_def sanitize_def
      isAlphaNumeric_def hyphen_def restricted_def slash_def)

end
